theory Spec2Isabelle
  imports Complex_Main "HOL-Library.Sublist"
begin

section \<open>Unmatched part of an abbreviation (stylesheet/index.ts)\<close>

text \<open>
  JavaScript strings are sequences of code units; every function below that only compares
  code units is polymorphic in the unit type, and \<^typ>\<open>string\<close> instantiates it.

  \<^verbatim>\<open>str.indexOf(ch, from)\<close> for a one-unit \<open>ch\<close>: the first position at or after
  \<open>from\<close> holding \<open>ch\<close>; \<open>None\<close> is the \<open>-1\<close> of the source.
\<close>

definition indexOf :: "'a list \<Rightarrow> 'a \<Rightarrow> nat \<Rightarrow> nat option" where
  "indexOf str c from =
     (case dropWhile (\<lambda>x. x \<noteq> c) (drop from str) of
        [] \<Rightarrow> None
      | _ # _ \<Rightarrow> Some (from + length (takeWhile (\<lambda>x. x \<noteq> c) (drop from str))))"

text \<open>
  The loop of \<open>getUnmatchedPart\<close>, with its two variables \<open>i\<close> and \<open>lastPos\<close>:
  \<^verbatim>\<open>
  for (let i = 0, lastPos = 0; i < abbr.length; i++) {
      lastPos = str.indexOf(abbr[i], lastPos);
      if (lastPos === -1) { return abbr.slice(i); }
      lastPos++;
  }
  return '';
  \<close>
\<close>

function getUnmatchedPart_loop :: "'a list \<Rightarrow> 'a list \<Rightarrow> nat \<Rightarrow> nat \<Rightarrow> 'a list" where
  "getUnmatchedPart_loop abbr str i lastPos =
     (if i < length abbr then
        (case indexOf str (abbr ! i) lastPos of
           None \<Rightarrow> drop i abbr
         | Some p \<Rightarrow> getUnmatchedPart_loop abbr str (i + 1) (p + 1))
      else [])"
  by pat_completeness auto
termination
  by (relation "measure (\<lambda>(abbr, str, i, lastPos). length abbr - i)") auto

declare getUnmatchedPart_loop.simps [simp del]

definition getUnmatchedPart :: "'a list \<Rightarrow> 'a list \<Rightarrow> 'a list" where
  "getUnmatchedPart abbr str = getUnmatchedPart_loop abbr str 0 0"

text \<open>
  The description of the specification, written on its own: for each character of the
  pattern the cursor moves greedily to just behind the next occurrence of that character
  in the candidate; at the first character with no occurrence left, the rest of the
  pattern (that character included) is the answer.
\<close>

fun greedy_remainder :: "'a list \<Rightarrow> 'a list \<Rightarrow> 'a list" where
  "greedy_remainder [] cand = []"
| "greedy_remainder (c # cs) cand =
     (case dropWhile (\<lambda>x. x \<noteq> c) cand of
        [] \<Rightarrow> c # cs
      | _ # rest \<Rightarrow> greedy_remainder cs rest)"

section \<open>Data model of the stylesheet resolver\<close>

text \<open>
  The token and value types come from the abbreviation parser's package; they are written
  here as the resolver reads them. A \<open>NumberValue\<close> without a unit carries the empty
  string, which JavaScript treats as false. Numbers are JavaScript numbers; the model
  takes them as reals (no \<open>NaN\<close>, no infinity: the parser reads them from digits).
\<close>

datatype Quote = single | double

datatype Value =
    Literal string
  | NumberValue real string
  | ColorValue nat nat nat real string
  | StringValue string Quote
  | FunctionCall string "CSSValue list"
  | Field nat string
and CSSValue = CSSValue "Value list"

text \<open>
  A parsed abbreviation node. \<open>name\<close> is optional in the source (\<open>None\<close> is
  \<open>undefined\<close>); the node is mutated in place there and returned updated here.
\<close>

record CSSProperty =
  name :: "string option"
  value' :: "CSSValue list"
  important :: bool

text \<open>
  Modelled from the spec: the snippet types of \<open>./snippets\<close>, which is not among the
  sources. A raw snippet maps its key to a text; a property snippet maps its key to a
  property name and a list of value alternatives (each a list of value groups), the
  first being the default. A keyword reference names one alternative by its index.
\<close>

datatype CSSSnippetRaw = CSSSnippetRaw (raw_key: string) (raw_value: string)

datatype CSSSnippetProperty =
  CSSSnippetProperty (prop_key: string) (property: string) (prop_value: "CSSValue list list")

datatype CSSSnippet = Raw CSSSnippetRaw | Property CSSSnippetProperty

fun key :: "CSSSnippet \<Rightarrow> string" where
  "key (Raw r) = raw_key r"
| "key (Property p) = prop_key p"

record CSSKeywordRef =
  keyword :: string
  index :: nat

text \<open>The union \<open>MatchInput = CSSSnippet | CSSKeywordRef | string\<close>.\<close>

datatype MatchInput = Snippet CSSSnippet | KeywordRef CSSKeywordRef | Str string

text \<open>
  The part of the configuration the resolver reads: \<open>config.context\<close> and the options
  \<open>stylesheet.fuzzySearchMinScore\<close>, \<open>stylesheet.unitAliases\<close>,
  \<open>stylesheet.unitless\<close>, \<open>stylesheet.intUnit\<close>, \<open>stylesheet.floatUnit\<close> and
  \<open>stylesheet.keywords\<close>.
\<close>

record Config =
  context' :: "string option"
  fuzzySearchMinScore :: real
  unitAliases :: "string \<rightharpoonup> string"
  unitless :: "string list"
  intUnit :: string
  floatUnit :: string
  keywords' :: "string list"

text \<open>
  What is not under the sources is a parameter of the functions that call it:
  \<^item> \<open>calculateScore\<close> of \<open>./score\<close>. Its arguments are optional strings because the
    callers can hand it \<open>undefined\<close> (\<open>None\<close>): \<open>node.name!\<close> of a node without a name,
    and the \<open>key\<close> of a keyword reference whose keyword is empty;
  \<^item> \<open>getKeywords\<close> of \<open>./snippets\<close>;
  \<^item> the conversion of a number to text in a template literal.
\<close>

type_synonym scorer = "string option \<Rightarrow> string option \<Rightarrow> real"

datatype error = TypeError

section \<open>Best match (findBestMatch, getScoringPart)\<close>

text \<open>
  \<^verbatim>\<open>
  if (typeof item === 'string') { return item; }
  return (item as CSSKeywordRef).keyword || (item as CSSSnippet).key;
  \<close>
  A snippet has no \<open>keyword\<close>, a keyword reference has no \<open>key\<close>.
\<close>

fun getScoringPart :: "MatchInput \<Rightarrow> string option" where
  "getScoringPart (Str s) = Some s"
| "getScoringPart (KeywordRef r) = (if keyword r \<noteq> [] then Some (keyword r) else None)"
| "getScoringPart (Snippet s) = Some (key s)"

text \<open>
  The loop of \<open>findBestMatch\<close> over the items still to visit, with its variables
  \<open>matchedItem\<close> and \<open>maxScore\<close>; \<open>sc\<close> is the score of an item:
  \<^verbatim>\<open>
  for (const item of items) {
      const score = calculateScore(abbr, getScoringPart(item));
      if (score === 1) { return item; }
      if (score && score >= maxScore) { maxScore = score; matchedItem = item; }
  }
  return maxScore >= minScore ? matchedItem : null;
  \<close>
\<close>

fun findBestMatch_loop :: "('a \<Rightarrow> real) \<Rightarrow> 'a list \<Rightarrow> 'a option \<Rightarrow> real \<Rightarrow> real \<Rightarrow> 'a option" where
  "findBestMatch_loop sc [] matchedItem maxScore minScore =
     (if maxScore \<ge> minScore then matchedItem else None)"
| "findBestMatch_loop sc (item # items) matchedItem maxScore minScore =
     (let score = sc item in
      if score = 1 then Some item
      else if score \<noteq> 0 \<and> score \<ge> maxScore
        then findBestMatch_loop sc items (Some item) score minScore
        else findBestMatch_loop sc items matchedItem maxScore minScore)"

text \<open>
  The score of an item of type \<open>T extends MatchInput\<close>; \<open>incl\<close> is the inclusion of
  \<open>T\<close> in the union.
\<close>

definition itemScore :: "scorer \<Rightarrow> ('a \<Rightarrow> MatchInput) \<Rightarrow> string option \<Rightarrow> 'a \<Rightarrow> real" where
  "itemScore calculateScore incl abbr item = calculateScore abbr (getScoringPart (incl item))"

text \<open>The default parameter \<open>minScore = 0\<close>: an absent argument is \<open>0\<close>.\<close>

definition minScoreOrDefault :: "real option \<Rightarrow> real" where
  "minScoreOrDefault minScore = (case minScore of None \<Rightarrow> 0 | Some m \<Rightarrow> m)"

definition findBestMatch ::
  "scorer \<Rightarrow> ('a \<Rightarrow> MatchInput) \<Rightarrow> string option \<Rightarrow> 'a list \<Rightarrow> real option \<Rightarrow> 'a option" where
  "findBestMatch calculateScore incl abbr items minScore =
     findBestMatch_loop (itemScore calculateScore incl abbr) items None 0
       (minScoreOrDefault minScore)"

section \<open>Field wrapper (hasField, wrapWithField)\<close>

text \<open>
  \<open>hasField\<close>: a loop over the tokens of a value, descending into the arguments of
  function calls (\<open>v.arguments.some(hasField)\<close>).
\<close>

fun hasField_tokens :: "Value list \<Rightarrow> bool"
  and hasField_arguments :: "CSSValue list \<Rightarrow> bool"
  and hasField :: "CSSValue \<Rightarrow> bool" where
  "hasField_tokens [] = False"
| "hasField_tokens (v # vs) =
     (case v of
        Field i nm \<Rightarrow> True
      | FunctionCall nm args \<Rightarrow> (if hasField_arguments args then True else hasField_tokens vs)
      | _ \<Rightarrow> hasField_tokens vs)"
| "hasField_arguments [] = False"
| "hasField_arguments (a # as) = (if hasField a then True else hasField_arguments as)"
| "hasField (CSSValue vs) = hasField_tokens vs"

text \<open>
  \<open>wrapWithField(node, state)\<close> mutates \<open>state.index\<close>; the model passes the index in
  and returns it with the result. \<open>wrapWithField_tokens\<close> is the loop over
  \<open>node.value\<close>, \<open>wrapWithField_arguments\<close> the inner loop over the arguments of a
  function call, which hands the same state to the recursive calls and puts
  \<open>literal(', ')\<close> behind every argument but the last. \<open>numToString\<close> is the
  conversion of a number in \<^verbatim>\<open>`${v.value}${v.unit}`\<close>.
\<close>

definition quoteChar :: "Quote \<Rightarrow> string" where
  "quoteChar q = (if q = single then [CHR 39] else [CHR 34])"

fun wrapWithField_tokens :: "(real \<Rightarrow> string) \<Rightarrow> Value list \<Rightarrow> nat \<Rightarrow> Value list \<times> nat"
  and wrapWithField_arguments :: "(real \<Rightarrow> string) \<Rightarrow> CSSValue list \<Rightarrow> nat \<Rightarrow> Value list \<times> nat"
  and wrapWithField_state :: "(real \<Rightarrow> string) \<Rightarrow> CSSValue \<Rightarrow> nat \<Rightarrow> CSSValue \<times> nat" where
  "wrapWithField_tokens numToString [] idx = ([], idx)"
| "wrapWithField_tokens numToString (v # vs) idx =
     (case v of
        ColorValue r g b a raw \<Rightarrow>
          (let (rest, idx') = wrapWithField_tokens numToString vs (idx + 1)
           in (Field idx raw # rest, idx'))
      | Literal s \<Rightarrow>
          (let (rest, idx') = wrapWithField_tokens numToString vs (idx + 1)
           in (Field idx s # rest, idx'))
      | NumberValue x u \<Rightarrow>
          (let (rest, idx') = wrapWithField_tokens numToString vs (idx + 1)
           in (Field idx (numToString x @ u) # rest, idx'))
      | StringValue s q \<Rightarrow>
          (let (rest, idx') = wrapWithField_tokens numToString vs (idx + 1)
           in (Field idx (quoteChar q @ s @ quoteChar q) # rest, idx'))
      | FunctionCall nm args \<Rightarrow>
          (let (inner, idx1) = wrapWithField_arguments numToString args (idx + 1);
               (rest, idx') = wrapWithField_tokens numToString vs idx1
           in (Field idx nm # Literal ''('' # inner @ Literal '')'' # rest, idx'))
      | Field i nm \<Rightarrow>
          (let (rest, idx') = wrapWithField_tokens numToString vs idx
           in (v # rest, idx')))"
| "wrapWithField_arguments numToString [] idx = ([], idx)"
| "wrapWithField_arguments numToString (a # as) idx =
     (let (wrapped, idx1) = wrapWithField_state numToString a idx;
          (rest, idx') = wrapWithField_arguments numToString as idx1
      in (case wrapped of
            CSSValue ts \<Rightarrow> (ts @ (if as = [] then [] else [Literal '', '']) @ rest, idx')))"
| "wrapWithField_state numToString (CSSValue vs) idx =
     (let (ts, idx') = wrapWithField_tokens numToString vs idx in (CSSValue ts, idx'))"

text \<open>The call with the default state \<open>{ index: 1 }\<close>, as \<open>resolveAsProperty\<close> makes it.\<close>

definition wrapWithField :: "(real \<Rightarrow> string) \<Rightarrow> CSSValue \<Rightarrow> CSSValue" where
  "wrapWithField numToString node = fst (wrapWithField_state numToString node 1)"

section \<open>Numeric values (resolveNumericValue)\<close>

text \<open>
  \<open>num | 0\<close> is JavaScript's \<open>ToInt32\<close>: the number is truncated towards zero,
  reduced modulo \<open>2^32\<close> and read as a signed 32-bit integer.
\<close>

definition toInt32 :: "real \<Rightarrow> int" where
  "toInt32 x =
     (let n = (if x < 0 then - \<lfloor>- x\<rfloor> else \<lfloor>x\<rfloor>);
          m = n mod 2 ^ 32
      in if m \<ge> 2 ^ 31 then m - 2 ^ 32 else m)"

text \<open>
  \<open>aliases[t.unit] || t.unit\<close>: the alias of a unit, the unit itself when there is no
  alias or the alias is the empty string.
\<close>

definition unitAlias :: "Config \<Rightarrow> string \<Rightarrow> string" where
  "unitAlias config u =
     (case unitAliases config u of
        None \<Rightarrow> u
      | Some a \<Rightarrow> (if a \<noteq> [] then a else u))"

text \<open>\<open>unitless.includes(node.name!)\<close>; a node without a name is in no list of names.\<close>

definition isUnitless :: "Config \<Rightarrow> string option \<Rightarrow> bool" where
  "isUnitless config nm = (case nm of None \<Rightarrow> False | Some n \<Rightarrow> n \<in> set (unitless config))"

text \<open>
  The body of the inner loop, for one token \<open>t\<close> of one value of the node:
  \<^verbatim>\<open>
  if (t.type === 'NumberValue') {
      if (t.unit) {
          t.unit = aliases[t.unit] || t.unit;
      } else if (t.value !== 0 && !unitless.includes(node.name!)) {
          t.unit = t.value === (t.value | 0)
              ? config.options['stylesheet.intUnit']
              : config.options['stylesheet.floatUnit'];
      }
  }
  \<close>
\<close>

fun resolveNumericValue_token :: "Config \<Rightarrow> string option \<Rightarrow> Value \<Rightarrow> Value" where
  "resolveNumericValue_token config nm (NumberValue x u) =
     (if u \<noteq> [] then NumberValue x (unitAlias config u)
      else if x \<noteq> 0 \<and> \<not> isUnitless config nm
        then NumberValue x (if x = of_int (toInt32 x) then intUnit config else floatUnit config)
        else NumberValue x u)"
| "resolveNumericValue_token config nm t = t"

text \<open>
  The two loops run over \<open>node.value\<close> and over the tokens of each value; the arguments
  of a function call are not visited.
\<close>

fun resolveNumericValue_value :: "Config \<Rightarrow> string option \<Rightarrow> CSSValue \<Rightarrow> CSSValue" where
  "resolveNumericValue_value config nm (CSSValue ts) =
     CSSValue (map (resolveNumericValue_token config nm) ts)"

definition resolveNumericValue :: "Config \<Rightarrow> CSSProperty \<Rightarrow> CSSProperty" where
  "resolveNumericValue config node =
     node\<lparr>value' := map (resolveNumericValue_value config (name node)) (value' node)\<rparr>"

section \<open>Keywords and node resolution\<close>

definition literal :: "string \<Rightarrow> Value" where
  "literal v = Literal v"

definition literalValue :: "string \<Rightarrow> CSSValue" where
  "literalValue v = CSSValue [literal v]"

definition setNodeAsText :: "CSSProperty \<Rightarrow> string \<Rightarrow> CSSProperty" where
  "setNodeAsText node text = node\<lparr>name := None, value' := [literalValue text]\<rparr>"

text \<open>
  \<open>getSingleKeyword\<close> returns the literal token when the node has one value made of one
  literal; the callers read its \<open>value\<close>, which is what the model returns.
\<close>

fun getSingleKeyword :: "CSSProperty \<Rightarrow> string option" where
  "getSingleKeyword node =
     (case value' node of
        [CSSValue [Literal kw]] \<Rightarrow> Some kw
      | _ \<Rightarrow> None)"

text \<open>
  What \<open>node.value\<close> is once a keyword lookup has run. The source assigns
  \<open>node.value = snippet.value[ref.index]\<close> (and \<open>node.value = defaultValue\<close> for a
  default that has fields): the node then holds the very array of that alternative of the
  snippet, not a copy, and what \<open>resolveNumericValue\<close> later writes into its tokens it
  writes into the snippet. Where \<open>ref.index\<close> is no index of \<open>snippet.value\<close> the
  assignment stores \<open>undefined\<close>, and nothing is thrown at that point.
  \<^item> \<open>OwnValue node\<close>: the value is an array of the node's own;
  \<^item> \<open>SnippetValue node i\<close>: the value is alternative \<open>i\<close> of the snippet, the same
    object; the record holds its contents;
  \<^item> \<open>NoValue name important\<close>: the value is \<open>undefined\<close>; the other two fields of
    the node are kept.
\<close>

datatype Resolved =
    OwnValue CSSProperty
  | SnippetValue CSSProperty nat
  | NoValue "string option" bool

text \<open>
  \<^verbatim>\<open>
  const ref = findBestMatch(kw, keywords, minScore);
  if (ref) { node.value = snippet.value[ref.index]!; return true; }
  return false;
  \<close>
  The node that comes in has a value of its own.
\<close>

definition resolveSnippetKeyword ::
  "scorer \<Rightarrow> (CSSSnippetProperty \<Rightarrow> CSSKeywordRef list) \<Rightarrow> CSSProperty \<Rightarrow> string
     \<Rightarrow> CSSSnippetProperty \<Rightarrow> real option \<Rightarrow> bool \<times> Resolved" where
  "resolveSnippetKeyword calculateScore getKeywords node kw snippet minScore =
     (case findBestMatch calculateScore KeywordRef (Some kw) (getKeywords snippet) minScore of
        Some ref \<Rightarrow>
          (True,
           if index ref < length (prop_value snippet)
           then SnippetValue (node\<lparr>value' := prop_value snippet ! index ref\<rparr>) (index ref)
           else NoValue (name node) (important node))
      | None \<Rightarrow> (False, OwnValue node))"

text \<open>
  \<open>if (ref)\<close> on a string: the empty string does not count as a match. The value is a
  new array with a new literal.
\<close>

definition resolveGlobalKeyword ::
  "scorer \<Rightarrow> CSSProperty \<Rightarrow> string \<Rightarrow> Config \<Rightarrow> real option \<Rightarrow> bool \<times> CSSProperty" where
  "resolveGlobalKeyword calculateScore node kw config minScore =
     (case findBestMatch calculateScore Str (Some kw) (keywords' config) minScore of
        Some ref \<Rightarrow>
          (if ref \<noteq> [] then (True, node\<lparr>value' := [literalValue ref]\<rparr>) else (False, node))
      | None \<Rightarrow> (False, node))"

text \<open>
  \<open>resolveAsProperty\<close>. In the branch without a value the abbreviation
  \<open>node.name!\<close> goes to \<open>getUnmatchedPart\<close>, which reads its length: a
  \<open>TypeError\<close> when the node has no name. A default value that has fields is taken as
  it is (alternative \<open>0\<close> of the snippet, shared); one without fields is wrapped, which
  builds new arrays and new tokens.
\<close>

definition resolveAsProperty ::
  "scorer \<Rightarrow> (CSSSnippetProperty \<Rightarrow> CSSKeywordRef list) \<Rightarrow> (real \<Rightarrow> string) \<Rightarrow> CSSProperty
     \<Rightarrow> CSSSnippetProperty \<Rightarrow> Config \<Rightarrow> error + Resolved" where
  "resolveAsProperty calculateScore getKeywords numToString node snippet config =
     (let abbr = name node;
          node1 = node\<lparr>name := Some (property snippet)\<rparr>
      in if value' node1 = [] then
           (case abbr of
              None \<Rightarrow> Inl TypeError
            | Some a \<Rightarrow>
                (case resolveSnippetKeyword calculateScore getKeywords node1
                        (getUnmatchedPart a (prop_key snippet)) snippet None of
                   (True, resolved) \<Rightarrow> Inr resolved
                 | (False, resolved) \<Rightarrow>
                     (case prop_value snippet of
                        [] \<Rightarrow> Inr resolved
                      | defaultValue # _ \<Rightarrow>
                          (if hasField_arguments defaultValue
                           then Inr (SnippetValue (node1\<lparr>value' := defaultValue\<rparr>) 0)
                           else Inr (OwnValue (node1\<lparr>value' :=
                                  map (wrapWithField numToString) defaultValue\<rparr>))))))
         else
           (case getSingleKeyword node1 of
              None \<Rightarrow> Inr (OwnValue node1)
            | Some kw \<Rightarrow>
                (case resolveSnippetKeyword calculateScore getKeywords node1 kw snippet None of
                   (True, resolved) \<Rightarrow> Inr resolved
                 | (False, resolved) \<Rightarrow>
                     Inr (OwnValue (snd (resolveGlobalKeyword calculateScore node1 kw config None))))))"

definition resolveAsSnippet :: "CSSProperty \<Rightarrow> CSSSnippetRaw \<Rightarrow> CSSProperty" where
  "resolveAsSnippet node snippet = setNodeAsText node (raw_value snippet)"

text \<open>
  \<^verbatim>\<open>
  const kw = getSingleKeyword(node);
  if (kw) {
      const score = config.options['stylesheet.fuzzySearchMinScore'];
      snippet && resolveSnippetKeyword(node, kw.value, snippet, score)
          || resolveGlobalKeyword(node, kw.value, config, score);
  }
  \<close>
\<close>

definition resolveAsPropertyValue ::
  "scorer \<Rightarrow> (CSSSnippetProperty \<Rightarrow> CSSKeywordRef list) \<Rightarrow> CSSProperty \<Rightarrow> Config
     \<Rightarrow> CSSSnippetProperty option \<Rightarrow> Resolved" where
  "resolveAsPropertyValue calculateScore getKeywords node config snippet =
     (case getSingleKeyword node of
        None \<Rightarrow> OwnValue node
      | Some kw \<Rightarrow>
          (let score = Some (fuzzySearchMinScore config) in
           case snippet of
             None \<Rightarrow> OwnValue (snd (resolveGlobalKeyword calculateScore node kw config score))
           | Some sn \<Rightarrow>
               (case resolveSnippetKeyword calculateScore getKeywords node kw sn score of
                  (True, resolved) \<Rightarrow> resolved
                | (False, resolved) \<Rightarrow>
                    OwnValue (snd (resolveGlobalKeyword calculateScore node kw config score)))))"

text \<open>
  The snippets are objects, and a snippet is told from an equal one by its position in the
  list. \<open>snippets.find(s => s.type === CSSSnippetType.Property && s.property ===
  config.context)\<close>: the first property snippet of that property name, with its position.
\<close>

fun findPropertySnippet_from ::
  "nat \<Rightarrow> CSSSnippet list \<Rightarrow> string \<Rightarrow> (nat \<times> CSSSnippetProperty) option" where
  "findPropertySnippet_from k [] c = None"
| "findPropertySnippet_from k (Raw r # snippets) c = findPropertySnippet_from (k + 1) snippets c"
| "findPropertySnippet_from k (Property p # snippets) c =
     (if property p = c then Some (k, p) else findPropertySnippet_from (k + 1) snippets c)"

definition findPropertySnippet ::
  "CSSSnippet list \<Rightarrow> string \<Rightarrow> (nat \<times> CSSSnippetProperty) option" where
  "findPropertySnippet snippets c = findPropertySnippet_from 0 snippets c"

text \<open>
  \<open>if (config.context)\<close>: a context that is absent or the empty string is false;
  \<open>contextName\<close> is the context when it counts as true.
\<close>

definition contextName :: "Config \<Rightarrow> string option" where
  "contextName config =
     (case context' config of
        None \<Rightarrow> None
      | Some c \<Rightarrow> (if c \<noteq> [] then Some c else None))"

text \<open>
  Modelled from the spec: the token objects of one alternative of a snippet belong to that
  alternative alone (\<open>createSnippet\<close> and \<open>nest\<close>, which build the snippets, are not
  among the sources). \<open>writeAlternative snippets k i v\<close> is the list of snippets once
  the tokens of alternative \<open>i\<close> of the snippet at position \<open>k\<close> hold \<open>v\<close>.
\<close>

definition writeAlternative ::
  "CSSSnippet list \<Rightarrow> nat \<Rightarrow> nat \<Rightarrow> CSSValue list \<Rightarrow> CSSSnippet list" where
  "writeAlternative snippets k i v =
     (if k < length snippets then
        (case snippets ! k of
           Property p \<Rightarrow>
             snippets[k := Property (CSSSnippetProperty (prop_key p) (property p)
                                       ((prop_value p)[i := v]))]
         | Raw r \<Rightarrow> snippets)
      else snippets)"

text \<open>
  The closing \<open>resolveNumericValue(node, config)\<close> of \<open>resolveNode\<close>, on what the
  resolution left in \<open>node.value\<close>; \<open>k\<close> is the position of the snippet the node was
  resolved with. The units are written into the token objects of the value: into the
  snippet, when the value is one of its alternatives. On \<open>undefined\<close> the loop
  \<open>for (const v of node.value)\<close> throws a \<open>TypeError\<close>. The result is the node and
  the snippets as the call leaves them.
\<close>

definition resolveNumericValue_of ::
  "Config \<Rightarrow> CSSSnippet list \<Rightarrow> nat \<Rightarrow> Resolved \<Rightarrow> error + (CSSProperty \<times> CSSSnippet list)" where
  "resolveNumericValue_of config snippets k resolved =
     (case resolved of
        OwnValue node \<Rightarrow> Inr (resolveNumericValue config node, snippets)
      | SnippetValue node i \<Rightarrow>
          (let node' = resolveNumericValue config node
           in Inr (node', writeAlternative snippets k i (value' node')))
      | NoValue nm imp \<Rightarrow> Inl TypeError)"

text \<open>
  \<open>resolveNode\<close>. \<open>findBestMatch\<close> runs over the snippets with their positions, so
  that the snippet it returns is known as the object it is.
\<close>

definition resolveNode ::
  "scorer \<Rightarrow> (CSSSnippetProperty \<Rightarrow> CSSKeywordRef list) \<Rightarrow> (real \<Rightarrow> string) \<Rightarrow> CSSProperty
     \<Rightarrow> CSSSnippet list \<Rightarrow> Config \<Rightarrow> error + (CSSProperty \<times> CSSSnippet list)" where
  "resolveNode calculateScore getKeywords numToString node snippets config =
     (case contextName config of
        Some c \<Rightarrow>
          (case findPropertySnippet snippets c of
             None \<Rightarrow>
               resolveNumericValue_of config snippets 0
                 (resolveAsPropertyValue calculateScore getKeywords node config None)
           | Some (k, p) \<Rightarrow>
               resolveNumericValue_of config snippets k
                 (resolveAsPropertyValue calculateScore getKeywords node config (Some p)))
      | None \<Rightarrow>
          (case findBestMatch calculateScore (Snippet \<circ> snd) (name node)
                  (enumerate 0 snippets) (Some (fuzzySearchMinScore config)) of
             None \<Rightarrow> resolveNumericValue_of config snippets 0 (OwnValue node)
           | Some (k, Property p) \<Rightarrow>
               (case resolveAsProperty calculateScore getKeywords numToString node p config of
                  Inl e \<Rightarrow> Inl e
                | Inr resolved \<Rightarrow> resolveNumericValue_of config snippets k resolved)
           | Some (k, Raw r) \<Rightarrow>
               resolveNumericValue_of config snippets k (OwnValue (resolveAsSnippet node r))))"

section \<open>Reading a wrapped value\<close>

text \<open>
  The tokens of a value tree in left-to-right, depth-first order: a function call comes
  first, then the tokens of its arguments, argument by argument.
\<close>

fun allTokens_tokens :: "Value list \<Rightarrow> Value list"
  and allTokens_arguments :: "CSSValue list \<Rightarrow> Value list"
  and allTokens :: "CSSValue \<Rightarrow> Value list" where
  "allTokens_tokens [] = []"
| "allTokens_tokens (v # vs) =
     (case v of
        FunctionCall nm args \<Rightarrow> v # allTokens_arguments args @ allTokens_tokens vs
      | _ \<Rightarrow> v # allTokens_tokens vs)"
| "allTokens_arguments [] = []"
| "allTokens_arguments (a # as) = allTokens a @ allTokens_arguments as"
| "allTokens (CSSValue vs) = allTokens_tokens vs"

text \<open>The placeholder text the specification derives from a token.\<close>

fun fieldText :: "(real \<Rightarrow> string) \<Rightarrow> Value \<Rightarrow> string" where
  "fieldText numToString (ColorValue r g b a raw) = raw"
| "fieldText numToString (Literal s) = s"
| "fieldText numToString (NumberValue x u) = numToString x @ u"
| "fieldText numToString (StringValue s q) = quoteChar q @ s @ quoteChar q"
| "fieldText numToString (FunctionCall nm args) = nm"
| "fieldText numToString (Field i nm) = nm"

text \<open>Fields for a list of tokens, numbered consecutively from \<open>idx\<close>.\<close>

fun numbered :: "(real \<Rightarrow> string) \<Rightarrow> nat \<Rightarrow> Value list \<Rightarrow> Value list" where
  "numbered numToString idx [] = []"
| "numbered numToString idx (t # ts) =
     Field idx (fieldText numToString t) # numbered numToString (idx + 1) ts"

fun isField :: "Value \<Rightarrow> bool" where
  "isField (Field i nm) = True"
| "isField t = False"

fun fieldIndex :: "Value \<Rightarrow> nat" where
  "fieldIndex (Field i nm) = i"
| "fieldIndex t = 0"

fun tokensOf :: "CSSValue \<Rightarrow> Value list" where
  "tokensOf (CSSValue ts) = ts"

text \<open>The field indices of a wrapped value, in the order of its tokens.\<close>

definition fieldIndices :: "CSSValue \<Rightarrow> nat list" where
  "fieldIndices v = map fieldIndex (filter isField (tokensOf v))"

section \<open>Reading a resolved node\<close>

text \<open>
  The unit aliases are settled when resolving a unit once is enough: no alias maps to a
  unit that has a different alias itself, and neither default unit has one.
\<close>

definition aliasesSettled :: "Config \<Rightarrow> bool" where
  "aliasesSettled config \<longleftrightarrow>
     (\<forall>u. u \<noteq> [] \<longrightarrow> unitAlias config (unitAlias config u) = unitAlias config u)
     \<and> (intUnit config \<noteq> [] \<longrightarrow> unitAlias config (intUnit config) = intUnit config)
     \<and> (floatUnit config \<noteq> [] \<longrightarrow> unitAlias config (floatUnit config) = floatUnit config)"

text \<open>A token without its unit: what numeric-unit inference leaves alone.\<close>

fun stripUnit :: "Value \<Rightarrow> Value" where
  "stripUnit (NumberValue x u) = NumberValue x []"
| "stripUnit t = t"

section \<open>Reading a match\<close>

text \<open>
  The best candidate as \<open>findBestMatch\<close> picks it with no minimum score, kept when its
  score is \<open>1\<close> or at least the threshold: what applying a threshold to the lookup
  amounts to.
\<close>

definition bestAccepted ::
  "scorer \<Rightarrow> ('a \<Rightarrow> MatchInput) \<Rightarrow> string option \<Rightarrow> 'a list \<Rightarrow> real \<Rightarrow> 'a option" where
  "bestAccepted calculateScore incl abbr items threshold =
     (case findBestMatch calculateScore incl abbr items None of
        None \<Rightarrow> None
      | Some y \<Rightarrow>
          (if itemScore calculateScore incl abbr y = 1
              \<or> threshold \<le> itemScore calculateScore incl abbr y
           then Some y else None))"

section \<open>Tree walker (walk)\<close>

text \<open>
  An abbreviation node with its children; \<open>payload\<close> stands for the fields the walker
  never looks at (name, attributes, value, repeater). The root of a tree is an
  \<open>Abbreviation\<close>, which is not a node.
\<close>

datatype 'a AbbreviationNode = AbbreviationNode (payload: 'a) (children: "'a AbbreviationNode list")


text \<open>
  \<open>WalkState\<close>, with the types of the output stream and of the output profile left
  open. \<open>walk\<close> takes any \<open>S extends WalkState\<close>: the functions below take the
  record with any extension.
\<close>

record ('a, 'o, 'p) WalkState =
  current :: "'a AbbreviationNode"
  parent :: "'a AbbreviationNode option"
  ancestors :: "'a AbbreviationNode list"
  out :: 'o
  profile :: 'p
  field :: real

text \<open>
  A visitor is code of the caller. What matters of one run of it is the sequence of its
  steps: it changes the state object (\<open>Update\<close>), it decides how to go on from what
  the state holds (\<open>Read\<close>), it calls the continuation \<open>next(node, index, items)\<close>
  and goes on when that returns (\<open>Next\<close>), it returns (\<open>Return\<close>). A \<open>Visitor\<close>
  maps the arguments \<open>(node, index, items)\<close> of the call to such a run; the state and
  the continuation, its other two arguments, are reached through the steps. Visitors
  that throw are left out.
\<close>

datatype ('n, 's) visit =
    Return
  | Update "'s \<Rightarrow> 's" "('n, 's) visit"
  | Read "'s \<Rightarrow> ('n, 's) visit"
  | Next 'n nat "'n list" "('n, 's) visit"

type_synonym ('n, 's) Visitor = "'n \<Rightarrow> nat \<Rightarrow> 'n list \<Rightarrow> ('n, 's) visit"

text \<open>
  One call of the visitor, as the walker makes it: the node, the index, the items, and
  the contents of the state object at the moment of the call. The functions of the
  walker return the state they leave together with the calls of the visitor they made,
  in order; \<open>None\<close> means the nesting of continuation calls went deeper than the fuel
  (a visitor may call the continuation on any node, also on its own, without end).
\<close>

type_synonym ('n, 's) call = "'n \<times> nat \<times> 'n list \<times> 's"

type_synonym ('n, 's) WalkNext =
  "'n \<Rightarrow> nat \<Rightarrow> 'n list \<Rightarrow> 's \<Rightarrow> ('s \<times> ('n, 's) call list) option"

text \<open>The run of a visitor, given what its continuation does.\<close>

primrec run :: "('n, 's) WalkNext \<Rightarrow> ('n, 's) visit \<Rightarrow> 's \<Rightarrow> ('s \<times> ('n, 's) call list) option" where
  "run nxt Return state = Some (state, [])"
| "run nxt (Update f body) state = run nxt body (f state)"
| "run nxt (Read body) state = run nxt (body state) state"
| "run nxt (Next node idx items body) state =
     (case nxt node idx items state of
        None \<Rightarrow> None
      | Some (state1, calls1) \<Rightarrow>
          (case run nxt body state1 of
             None \<Rightarrow> None
           | Some (state2, calls2) \<Rightarrow> Some (state2, calls1 @ calls2)))"

text \<open>
  \<^verbatim>\<open>
  const next: WalkNext = (node, index, items) => {
      state.ancestors.push(state.current);
      callback(node, index, items);
      state.ancestors.pop();
  };
  \<close>
\<close>

definition next_with ::
  "('a AbbreviationNode, ('a, 'o, 'p, 'z) WalkState_scheme) WalkNext
     \<Rightarrow> ('a AbbreviationNode, ('a, 'o, 'p, 'z) WalkState_scheme) WalkNext" where
  "next_with callback node idx items state =
     (case callback node idx items (state\<lparr>ancestors := ancestors state @ [current state]\<rparr>) of
        None \<Rightarrow> None
      | Some (state', calls) \<Rightarrow> Some (state'\<lparr>ancestors := butlast (ancestors state')\<rparr>, calls))"

text \<open>
  \<^verbatim>\<open>
  const callback = (ctx, index, items) => {
      const { parent, current } = state;
      state.parent = current;
      state.current = ctx;
      visitor(ctx, index, items, state, next);
      state.current = current;
      state.parent = parent;
  };
  \<close>
  Each level of nesting takes one unit of fuel.
\<close>

primrec callback ::
  "nat \<Rightarrow> ('a AbbreviationNode, ('a, 'o, 'p, 'z) WalkState_scheme) Visitor
     \<Rightarrow> ('a AbbreviationNode, ('a, 'o, 'p, 'z) WalkState_scheme) WalkNext" where
  "callback 0 visitor ctx idx items state = None"
| "callback (Suc fuel) visitor ctx idx items state =
     (let parent0 = parent state;
          current0 = current state;
          entered = state\<lparr>parent := Some current0, current := ctx\<rparr>
      in case run (next_with (callback fuel visitor)) (visitor ctx idx items) entered of
           None \<Rightarrow> None
         | Some (state', calls) \<Rightarrow>
             Some (state'\<lparr>current := current0, parent := parent0\<rparr>,
                   (ctx, idx, items, entered) # calls))"



section \<open>Reading a walk\<close>










text \<open>
  Replacing the three fields the walker is not to touch, in a state and in the result of a
  walk.
\<close>

definition setUserFields ::
  "'o \<Rightarrow> 'p \<Rightarrow> real \<Rightarrow> ('a, 'o, 'p, 'z) WalkState_scheme \<Rightarrow> ('a, 'o, 'p, 'z) WalkState_scheme" where
  "setUserFields o' p' f' state = state\<lparr>out := o', profile := p', field := f'\<rparr>"


text \<open>
  The fields the walker is not to touch, as one value; and a state with these fields
  replaced.
\<close>

definition userFields :: "('a, 'o, 'p, 'z) WalkState_scheme \<Rightarrow> 'o \<times> 'p \<times> real" where
  "userFields state = (out state, profile state, field state)"

definition withUserFields ::
  "'o \<times> 'p \<times> real \<Rightarrow> ('a, 'o, 'p, 'z) WalkState_scheme \<Rightarrow> ('a, 'o, 'p, 'z) WalkState_scheme" where
  "withUserFields u state = (case u of (o', p', f') \<Rightarrow> setUserFields o' p' f' state)"






section \<open>Example inputs\<close>

text \<open>
  A stand-in for the scorer, used only where a statement is evaluated on a concrete
  input: \<open>1\<close> for equal strings, one half for different strings with the same first
  character, \<open>0\<close> otherwise. It is not the scorer of \<open>./score\<close>.
\<close>

definition exampleScore :: scorer where
  "exampleScore abbr str =
     (case (abbr, str) of
        (Some (a # as), Some (b # bs)) \<Rightarrow>
          (if a # as = b # bs then 1 else if a = b then 1 / 2 else 0)
      | (Some [], Some []) \<Rightarrow> 1
      | _ \<Rightarrow> 0)"

definition exampleRef :: "string \<Rightarrow> nat \<Rightarrow> CSSKeywordRef" where
  "exampleRef kw i = \<lparr>keyword = kw, index = i\<rparr>"

definition exampleNumToString :: "real \<Rightarrow> string" where
  "exampleNumToString x = ''1''"

definition exampleGetKeywords :: "CSSSnippetProperty \<Rightarrow> CSSKeywordRef list" where
  "exampleGetKeywords snippet =
     (if property snippet = ''position''
      then [exampleRef ''relative'' 0, exampleRef ''absolute'' 1]
      else [])"

definition exampleFontFamily :: CSSSnippetProperty where
  "exampleFontFamily =
     CSSSnippetProperty ''ff'' ''font-family''
       [[CSSValue [Literal ''Arial''], CSSValue [Literal ''Helvetica'']]]"

definition exampleMargin :: CSSSnippetProperty where
  "exampleMargin =
     CSSSnippetProperty ''m'' ''margin'' [[CSSValue [Field 1 ''auto'', NumberValue 5 []]]]"

definition exampleTransform :: CSSSnippetProperty where
  "exampleTransform =
     CSSSnippetProperty ''trf'' ''transform''
       [[CSSValue [FunctionCall ''scale''
                     [CSSValue [NumberValue 1 [], Literal ''x''], CSSValue [Literal ''y'']],
                   Literal ''z''],
         CSSValue [Literal ''none'']]]"

definition exampleConfig :: Config where
  "exampleConfig =
     \<lparr>context' = None, fuzzySearchMinScore = 3 / 10,
      unitAliases = [''e'' \<mapsto> ''em'', ''p'' \<mapsto> ''%'', ''x'' \<mapsto> ''ex'', ''r'' \<mapsto> ''rem''],
      unitless = [''z-index'', ''line-height'', ''opacity'', ''font-weight'', ''zoom''],
      intUnit = ''px'', floatUnit = ''em'',
      keywords' = [''auto'', ''inherit'', ''unset'']\<rparr>"

definition chainedConfig :: Config where
  "chainedConfig = exampleConfig\<lparr>unitAliases := [''e'' \<mapsto> ''em'', ''em'' \<mapsto> ''rem'']\<rparr>"

definition examplePosition :: CSSSnippetProperty where
  "examplePosition =
     CSSSnippetProperty ''pos'' ''position''
       [[CSSValue [Literal ''relative'']], [CSSValue [Literal ''absolute'']]]"

definition exampleSnippets :: "CSSSnippet list" where
  "exampleSnippets =
     [Property examplePosition, Property exampleTransform,
      Raw (CSSSnippetRaw ''imp'' ''!important'')]"

definition strictConfig :: Config where
  "strictConfig = exampleConfig\<lparr>fuzzySearchMinScore := 9 / 10\<rparr>"










section \<open>Properties of the unmatched part\<close>

subsection \<open>The loop computes the greedy remainder\<close>

lemma indexOf_None_iff:
  "indexOf str c from = None \<longleftrightarrow> dropWhile (\<lambda>x. x \<noteq> c) (drop from str) = []"
  by (cases "dropWhile (\<lambda>x. x \<noteq> c) (drop from str)") (simp_all add: indexOf_def del: dropWhile_eq_Nil_conv)

lemma indexOf_Some_drop:
  assumes "indexOf str c from = Some p"
  shows "\<exists>y. dropWhile (\<lambda>x. x \<noteq> c) (drop from str) = y # drop (p + 1) str"
proof -
  let ?d = "drop from str"
  let ?t = "takeWhile (\<lambda>x. x \<noteq> c) ?d"
  from assms obtain y ys where dw: "dropWhile (\<lambda>x. x \<noteq> c) ?d = y # ys"
    and p: "p = from + length ?t"
    by (auto simp: indexOf_def split: list.splits)
  have "drop (length ?t) ?d = y # ys"
    using dw by (simp add: dropWhile_eq_drop)
  then have "drop (Suc (length ?t)) ?d = ys"
    by (metis drop_Suc list.sel(3) tl_drop)
  then have "ys = drop (p + 1) str"
    using p by (simp add: add.commute)
  with dw show ?thesis by simp
qed

lemma getUnmatchedPart_loop_greedy:
  "i \<le> length abbr \<Longrightarrow>
   getUnmatchedPart_loop abbr str i lastPos = greedy_remainder (drop i abbr) (drop lastPos str)"
proof (induction abbr str i lastPos rule: getUnmatchedPart_loop.induct)
  case (1 abbr str i lastPos)
  show ?case
  proof (cases "i < length abbr")
    case False
    with "1.prems" show ?thesis by (subst getUnmatchedPart_loop.simps) simp
  next
    case True
    then have split: "drop i abbr = abbr ! i # drop (i + 1) abbr"
      by (simp add: Cons_nth_drop_Suc)
    show ?thesis
    proof (cases "indexOf str (abbr ! i) lastPos")
      case None
      then have "dropWhile (\<lambda>x. x \<noteq> abbr ! i) (drop lastPos str) = []"
        by (simp only: indexOf_None_iff)
      have "getUnmatchedPart_loop abbr str i lastPos = drop i abbr"
        using True None by (subst getUnmatchedPart_loop.simps) simp
      moreover have "greedy_remainder (drop i abbr) (drop lastPos str) = drop i abbr"
        using \<open>dropWhile (\<lambda>x. x \<noteq> abbr ! i) (drop lastPos str) = []\<close>
        by (subst (1 2) split) (simp del: dropWhile_eq_Nil_conv)
      ultimately show ?thesis by simp
    next
      case (Some p)
      from indexOf_Some_drop [OF Some] obtain y where
        dw: "dropWhile (\<lambda>x. x \<noteq> abbr ! i) (drop lastPos str) = y # drop (p + 1) str"
        by blast
      have "getUnmatchedPart_loop abbr str i lastPos =
              getUnmatchedPart_loop abbr str (i + 1) (p + 1)"
        using True Some by (subst getUnmatchedPart_loop.simps) simp
      also have "\<dots> = greedy_remainder (drop (i + 1) abbr) (drop (p + 1) str)"
        using "1.IH" [OF True Some] True by simp
      also have "\<dots> = greedy_remainder (abbr ! i # drop (i + 1) abbr) (drop lastPos str)"
        by (simp add: dw)
      also have "\<dots> = greedy_remainder (drop i abbr) (drop lastPos str)"
        by (simp only: split [symmetric])
      finally show ?thesis .
    qed
  qed
qed

lemma getUnmatchedPart_eq_greedy: "getUnmatchedPart abbr str = greedy_remainder abbr str"
  by (simp add: getUnmatchedPart_def getUnmatchedPart_loop_greedy)

lemma suffix_greedy_remainder: "suffix (greedy_remainder abbr cand) abbr"
proof (induction abbr arbitrary: cand)
  case Nil
  then show ?case by simp
next
  case (Cons c cs)
  show ?case
  proof (cases "dropWhile (\<lambda>x. x \<noteq> c) cand")
    case Nil
    then show ?thesis by (simp del: dropWhile_eq_Nil_conv)
  next
    case (Cons y rest)
    with Cons.IH [of rest] show ?thesis by (simp add: suffix_Cons)
  qed
qed

text \<open>
  Claim C6. \<open>getUnmatchedPart\<close> returns the suffix of the pattern that greedy cursor
  movement through the candidate leaves unconsumed, for every pattern and candidate; and
  on the three inputs of the specification it returns \<open>as\<close>, \<open>abc\<close> and the empty
  string.
\<close>

theorem getUnmatchedPart_greedy_remainder:
  "getUnmatchedPart abbr str = greedy_remainder abbr str
   \<and> suffix (getUnmatchedPart abbr str) abbr
   \<and> getUnmatchedPart ''poas'' ''position'' = ''as''
   \<and> getUnmatchedPart ''abc'' ''xyz'' = ''abc''
   \<and> getUnmatchedPart ''pos'' ''position'' = ''''"
  by (simp add: getUnmatchedPart_eq_greedy suffix_greedy_remainder)

section \<open>Properties of the best match\<close>

subsection \<open>The loop\<close>

lemma findBestMatch_loop_perfect:
  "find (\<lambda>x. sc x = 1) items = Some p \<Longrightarrow>
   findBestMatch_loop sc items matchedItem maxScore minScore = Some p"
  by (induction items arbitrary: matchedItem maxScore) (auto simp: Let_def)

lemma findBestMatch_loop_below:
  "\<forall>x\<in>set items. sc x \<noteq> 1 \<and> (sc x = 0 \<or> sc x < maxScore) \<Longrightarrow>
   findBestMatch_loop sc items matchedItem maxScore minScore =
     (if maxScore \<ge> minScore then matchedItem else None)"
  by (induction items) (auto simp: Let_def)

lemma findBestMatch_loop_last_best:
  assumes "\<forall>x\<in>set items. sc x \<noteq> 1"
    and "y \<in> set items" and "\<forall>x\<in>set items. sc x \<le> sc y"
    and "sc y \<noteq> 0" and "maxScore \<le> sc y" and "minScore \<le> sc y"
  shows "findBestMatch_loop sc items matchedItem maxScore minScore =
           Some (last (filter (\<lambda>x. sc x = sc y) items))"
  using assms
proof (induction items arbitrary: matchedItem maxScore y)
  case Nil
  then show ?case by simp
next
  case (Cons x items)
  show ?case
  proof (cases "\<exists>z\<in>set items. sc z = sc y")
    case True
    then obtain z where z: "z \<in> set items" "sc z = sc y" by blast
    have ne: "filter (\<lambda>x. sc x = sc y) items \<noteq> []"
      using z by (auto simp: filter_empty_conv)
    have ih: "findBestMatch_loop sc items m mx minScore =
                Some (last (filter (\<lambda>x. sc x = sc y) items))"
      if "mx \<le> sc y" for m mx
      using Cons.IH [where y = z and maxScore = mx and matchedItem = m] z that Cons.prems by auto
    show ?thesis
      using Cons.prems ne by (auto simp: Let_def ih)
  next
    case False
    then have xy: "sc x = sc y" and lt: "\<forall>z\<in>set items. sc z < sc y"
      using Cons.prems by (auto simp: less_le)
    have emp: "filter (\<lambda>x. sc x = sc y) items = []"
      using False by (auto simp: filter_empty_conv)
    have "findBestMatch_loop sc items (Some x) (sc y) minScore = Some x"
      using lt Cons.prems by (subst findBestMatch_loop_below) auto
    then show ?thesis
      using Cons.prems xy emp by (auto simp: Let_def)
  qed
qed

lemma findBestMatch_loop_None_iff:
  assumes "\<forall>x\<in>set items. sc x \<noteq> 1" and "0 \<le> maxScore"
    and "matchedItem = None \<longrightarrow> maxScore = 0"
  shows "findBestMatch_loop sc items matchedItem maxScore minScore = None \<longleftrightarrow>
           ((\<forall>x\<in>set items. sc x < minScore) \<and> maxScore < minScore)
           \<or> (matchedItem = None \<and> (\<forall>x\<in>set items. \<not> 0 < sc x))"
  using assms
proof (induction items arbitrary: matchedItem maxScore)
  case Nil
  then show ?case by auto
next
  case (Cons x items)
  show ?case
  proof (cases "sc x \<noteq> 0 \<and> sc x \<ge> maxScore")
    case True
    then have "findBestMatch_loop sc (x # items) matchedItem maxScore minScore =
                 findBestMatch_loop sc items (Some x) (sc x) minScore"
      using Cons.prems by (simp add: Let_def)
    also have "\<dots> = None \<longleftrightarrow> (\<forall>z\<in>set items. sc z < minScore) \<and> sc x < minScore"
      using Cons.IH [where maxScore = "sc x" and matchedItem = "Some x"] Cons.prems True by auto
    finally show ?thesis using True Cons.prems by auto
  next
    case False
    then have "findBestMatch_loop sc (x # items) matchedItem maxScore minScore =
                 findBestMatch_loop sc items matchedItem maxScore minScore"
      using Cons.prems by (auto simp: Let_def)
    also have "\<dots> = None \<longleftrightarrow>
        ((\<forall>z\<in>set items. sc z < minScore) \<and> maxScore < minScore)
        \<or> (matchedItem = None \<and> (\<forall>z\<in>set items. \<not> 0 < sc z))"
      using Cons.IH [where maxScore = maxScore and matchedItem = matchedItem] Cons.prems by auto
    finally show ?thesis using False Cons.prems by auto
  qed
qed

subsection \<open>Ties\<close>

text \<open>
  Claim C1, as the code has it. When no item has the perfect score \<open>1\<close> and the best
  score is positive and at least \<open>minScore\<close>, \<open>findBestMatch\<close> returns the
  \<^emph>\<open>last\<close> item in input order among those that share the best score: the test
  \<open>score >= maxScore\<close> lets a later equal score overwrite the tracked match.
\<close>

theorem findBestMatch_tie_last:
  assumes "\<forall>x\<in>set items. itemScore calculateScore incl abbr x \<noteq> 1"
    and "y \<in> set items"
    and "\<forall>x\<in>set items. itemScore calculateScore incl abbr x \<le> itemScore calculateScore incl abbr y"
    and "0 < itemScore calculateScore incl abbr y"
    and "minScoreOrDefault minScore \<le> itemScore calculateScore incl abbr y"
  shows "findBestMatch calculateScore incl abbr items minScore =
           Some (last (filter (\<lambda>x. itemScore calculateScore incl abbr x =
                                     itemScore calculateScore incl abbr y) items))"
  unfolding findBestMatch_def
  using assms by (intro findBestMatch_loop_last_best) auto

theorem findBestMatch_tie_last_witness:
  "findBestMatch exampleScore KeywordRef (Some ''a'')
     [exampleRef ''block'' 0, exampleRef ''absolute'' 1, exampleRef ''auto'' 2] None =
   Some (exampleRef ''auto'' 2)"
  using findBestMatch_tie_last [of
      "[exampleRef ''block'' 0, exampleRef ''absolute'' 1, exampleRef ''auto'' 2]"
      exampleScore KeywordRef "Some ''a''" "exampleRef ''absolute'' 1" None]
  by (simp add: itemScore_def exampleScore_def exampleRef_def minScoreOrDefault_def)

text \<open>
  The claim as the specification states it (the first of the tied items is returned)
  fails: two keyword references with the same keyword score the same under every
  scorer, and the second one is returned.
\<close>

theorem findBestMatch_tie_first_counterexample:
  "itemScore exampleScore KeywordRef (Some ''a'') (exampleRef ''absolute'' 0) =
     itemScore exampleScore KeywordRef (Some ''a'') (exampleRef ''absolute'' 1)
   \<and> findBestMatch exampleScore KeywordRef (Some ''a'')
        [exampleRef ''absolute'' 0, exampleRef ''absolute'' 1] None =
      Some (exampleRef ''absolute'' 1)
   \<and> findBestMatch exampleScore KeywordRef (Some ''a'')
        [exampleRef ''absolute'' 0, exampleRef ''absolute'' 1] None \<noteq>
      Some (exampleRef ''absolute'' 0)"
  by (simp add: findBestMatch_def itemScore_def exampleScore_def exampleRef_def
      minScoreOrDefault_def)

subsection \<open>Perfect score and no match\<close>

text \<open>
  Claim C8, as the code has it. The first item with the perfect score \<open>1\<close> is
  returned, whatever follows it and whatever \<open>minScore\<close> is. When the loop runs to
  its end (no item scores \<open>1\<close>), and also whenever \<open>minScore\<close> is at most
  \<open>1\<close>, the result is none exactly when every score is below \<open>minScore\<close> or no
  item scored above \<open>0\<close>.
\<close>

theorem findBestMatch_perfect_or_none:
  "(find (\<lambda>x. itemScore calculateScore incl abbr x = 1) items = Some p \<longrightarrow>
      findBestMatch calculateScore incl abbr items minScore = Some p)
   \<and> (find (\<lambda>x. itemScore calculateScore incl abbr x = 1) items = None
        \<or> minScoreOrDefault minScore \<le> 1 \<longrightarrow>
      (findBestMatch calculateScore incl abbr items minScore = None \<longleftrightarrow>
         (\<forall>x\<in>set items. itemScore calculateScore incl abbr x < minScoreOrDefault minScore)
         \<or> (\<forall>x\<in>set items. \<not> 0 < itemScore calculateScore incl abbr x)))"
proof (intro conjI impI)
  assume "find (\<lambda>x. itemScore calculateScore incl abbr x = 1) items = Some p"
  then show "findBestMatch calculateScore incl abbr items minScore = Some p"
    by (simp add: findBestMatch_def findBestMatch_loop_perfect)
next
  let ?sc = "itemScore calculateScore incl abbr"
  let ?m = "minScoreOrDefault minScore"
  assume h: "find (\<lambda>x. ?sc x = 1) items = None \<or> ?m \<le> 1"
  show "findBestMatch calculateScore incl abbr items minScore = None \<longleftrightarrow>
          (\<forall>x\<in>set items. ?sc x < ?m) \<or> (\<forall>x\<in>set items. \<not> 0 < ?sc x)"
  proof (cases "find (\<lambda>x. ?sc x = 1) items")
    case None
    then have "\<forall>x\<in>set items. ?sc x \<noteq> 1"
      by (simp add: find_None_iff)
    then show ?thesis
      unfolding findBestMatch_def
      by (subst findBestMatch_loop_None_iff) auto
  next
    case (Some q)
    then have q: "q \<in> set items" "?sc q = 1"
      by (auto simp: find_Some_iff)
    from Some h have "?m \<le> 1" by simp
    moreover have "findBestMatch calculateScore incl abbr items minScore = Some q"
      using Some by (simp add: findBestMatch_def findBestMatch_loop_perfect)
    ultimately show ?thesis using q by force
  qed
qed

theorem findBestMatch_perfect_or_none_witness:
  "findBestMatch exampleScore Str (Some ''auto'') [''absolute'', ''auto'', ''all''] (Some 2) =
     Some ''auto''
   \<and> findBestMatch exampleScore Str (Some ''a'') [''absolute'', ''block''] (Some (3 / 4)) = None
   \<and> findBestMatch exampleScore Str (Some ''x'') [''absolute'', ''block''] None = None
   \<and> findBestMatch exampleScore Str (Some ''a'') [''absolute'', ''block''] (Some (1 / 4)) \<noteq> None"
  using findBestMatch_perfect_or_none [of exampleScore Str "Some ''auto''"
      "[''absolute'', ''auto'', ''all'']" "''auto''" "Some 2"]
    findBestMatch_perfect_or_none [of exampleScore Str "Some ''a''"
      "[''absolute'', ''block'']" "''a''" "Some (3 / 4)"]
    findBestMatch_perfect_or_none [of exampleScore Str "Some ''x''"
      "[''absolute'', ''block'']" "''a''" None]
    findBestMatch_perfect_or_none [of exampleScore Str "Some ''a''"
      "[''absolute'', ''block'']" "''a''" "Some (1 / 4)"]
  by (simp add: itemScore_def exampleScore_def minScoreOrDefault_def)

text \<open>
  The perfect score is returned without a look at \<open>minScore\<close>: with \<open>minScore = 2\<close> the
  best score over all items, \<open>1\<close>, is below \<open>minScore\<close>, and the result is the item, not
  none.
\<close>

theorem findBestMatch_perfect_below_minScore_counterexample:
  "findBestMatch exampleScore Str (Some ''auto'') [''absolute'', ''auto'', ''all''] (Some 2) =
     Some ''auto''
   \<and> list_all (\<lambda>x. itemScore exampleScore Str (Some ''auto'') x < minScoreOrDefault (Some 2))
         [''absolute'', ''auto'', ''all'']
   \<and> Max (itemScore exampleScore Str (Some ''auto'') ` set [''absolute'', ''auto'', ''all'']) = 1"
  by (simp add: findBestMatch_def itemScore_def exampleScore_def minScoreOrDefault_def)

section \<open>Properties of the field wrapper\<close>

lemma numbered_append:
  "numbered ns idx (xs @ ys) = numbered ns idx xs @ numbered ns (idx + length xs) ys"
  by (induction xs arbitrary: idx) auto

lemma fieldIndex_numbered: "map fieldIndex (numbered ns idx ts) = [idx ..< idx + length ts]"
proof (induction ts arbitrary: idx)
  case Nil
  then show ?case by simp
next
  case (Cons t ts)
  have "[idx ..< idx + length (t # ts)] = idx # [idx + 1 ..< idx + 1 + length ts]"
    by (subst upt_conv_Cons) simp_all
  then show ?case using Cons.IH [of "idx + 1"] by simp
qed

lemma wrap_numbering:
  "\<not> hasField_tokens vs \<Longrightarrow>
     snd (wrapWithField_tokens ns vs idx) = idx + length (allTokens_tokens vs)
     \<and> filter isField (fst (wrapWithField_tokens ns vs idx)) = numbered ns idx (allTokens_tokens vs)"
  "\<not> hasField_arguments args \<Longrightarrow>
     snd (wrapWithField_arguments ns args idx) = idx + length (allTokens_arguments args)
     \<and> filter isField (fst (wrapWithField_arguments ns args idx)) =
         numbered ns idx (allTokens_arguments args)"
  "\<not> hasField node \<Longrightarrow>
     snd (wrapWithField_state ns node idx) = idx + length (allTokens node)
     \<and> filter isField (tokensOf (fst (wrapWithField_state ns node idx))) =
         numbered ns idx (allTokens node)"
proof (induction ns vs idx and ns args idx and ns node idx
    rule: wrapWithField_tokens_wrapWithField_arguments_wrapWithField_state.induct)
  case (1 numToString idx)
  then show ?case by simp
next
  case (2 numToString v vs idx)
  show ?case
  proof (cases v)
    case (FunctionCall nm args)
    obtain inner idx1 where inner: "wrapWithField_arguments numToString args (idx + 1) = (inner, idx1)"
      by fastforce
    obtain rest idx2 where rest: "wrapWithField_tokens numToString vs idx1 = (rest, idx2)"
      by fastforce
    from "2.prems" FunctionCall have nf: "\<not> hasField_arguments args" "\<not> hasField_tokens vs"
      by (auto split: if_splits)
    from "2.IH"(5) [OF FunctionCall nf(1)] inner
    have a: "idx1 = idx + 1 + length (allTokens_arguments args)"
      "filter isField inner = numbered numToString (idx + 1) (allTokens_arguments args)"
      by auto
    from "2.IH"(6) [OF FunctionCall inner [symmetric] refl nf(2)] rest
    have b: "idx2 = idx1 + length (allTokens_tokens vs)"
      "filter isField rest = numbered numToString idx1 (allTokens_tokens vs)"
      by auto
    show ?thesis
      using FunctionCall inner rest a b by (simp add: numbered_append)
  qed (use "2.prems" "2.IH" in \<open>auto simp: split_beta\<close>)
next
  case (3 numToString idx)
  then show ?case by simp
next
  case (4 numToString a as idx)
  obtain ts idx1 where wrapped: "wrapWithField_state numToString a idx = (CSSValue ts, idx1)"
    by (metis CSSValue.exhaust surj_pair)
  obtain rest idx2 where rest: "wrapWithField_arguments numToString as idx1 = (rest, idx2)"
    by fastforce
  from "4.prems" have nf: "\<not> hasField a" "\<not> hasField_arguments as"
    by (auto split: if_splits)
  from "4.IH"(1) [OF nf(1)] wrapped
  have a: "idx1 = idx + length (allTokens a)"
    "filter isField ts = numbered numToString idx (allTokens a)"
    by auto
  from "4.IH"(2) [OF wrapped [symmetric] refl nf(2)] rest
  have b: "idx2 = idx1 + length (allTokens_arguments as)"
    "filter isField rest = numbered numToString idx1 (allTokens_arguments as)"
    by auto
  show ?case
    using wrapped rest a b by (simp add: numbered_append)
next
  case (5 numToString vs idx)
  then show ?case by (auto simp: split_beta)
qed

lemma hasField_arguments_member:
  "\<not> hasField_arguments vs \<Longrightarrow> v \<in> set vs \<Longrightarrow> \<not> hasField v"
  by (induction vs) (auto split: if_splits)

lemma wrapWithField_fieldIndices:
  assumes "\<not> hasField node"
  shows "fieldIndices (wrapWithField ns node) = [1 ..< length (allTokens node) + 1]"
proof -
  have "filter isField (tokensOf (wrapWithField ns node)) = numbered ns 1 (allTokens node)"
    using wrap_numbering(3) [OF assms, of ns 1] by (simp add: wrapWithField_def)
  then show ?thesis
    by (simp add: fieldIndices_def fieldIndex_numbered add.commute)
qed

text \<open>
  Claim C2, as the code has it. Wrapping a value tree without fields turns its \<open>N\<close>
  tokens (function calls counted, since the name of a call gets a field too) into fields
  numbered consecutively in left-to-right, depth-first order: from the index the counter
  holds, which the call advances by \<open>N\<close>, so that the one counter runs through nested
  arguments and following siblings without a gap or a repeat; with the default counter
  the indices are \<open>1, \<dots>, N\<close>. When \<open>resolveAsProperty\<close> falls back to the default
  value of a snippet (no value in the abbreviation, the unmatched part resolves to no
  keyword, the default has no field) every value group of the default is wrapped this
  way by a call of its own, each with the default counter: every group is numbered from
  \<open>1\<close>.
\<close>

theorem wrapWithField_numbering:
  "(\<not> hasField tree \<longrightarrow>
      snd (wrapWithField_state numToString tree idx) = idx + length (allTokens tree)
      \<and> filter isField (tokensOf (fst (wrapWithField_state numToString tree idx))) =
          numbered numToString idx (allTokens tree)
      \<and> fieldIndices (fst (wrapWithField_state numToString tree idx)) =
          [idx ..< idx + length (allTokens tree)]
      \<and> fieldIndices (wrapWithField numToString tree) = [1 ..< length (allTokens tree) + 1])
   \<and> (name node = Some a \<and> value' node = []
       \<and> findBestMatch calculateScore KeywordRef (Some (getUnmatchedPart a (prop_key snippet)))
            (getKeywords snippet) None = None
       \<and> prop_value snippet = defaultValue # alternatives
       \<and> \<not> hasField_arguments defaultValue \<longrightarrow>
      resolveAsProperty calculateScore getKeywords numToString node snippet config =
        Inr (OwnValue (node\<lparr>name := Some (property snippet),
                  value' := map (wrapWithField numToString) defaultValue\<rparr>))
      \<and> (\<forall>v\<in>set defaultValue.
            fieldIndices (wrapWithField numToString v) = [1 ..< length (allTokens v) + 1]))"
proof (intro conjI impI)
  assume nf: "\<not> hasField tree"
  from wrap_numbering(3) [OF nf, of numToString idx]
  show "snd (wrapWithField_state numToString tree idx) = idx + length (allTokens tree)"
    and f: "filter isField (tokensOf (fst (wrapWithField_state numToString tree idx))) =
          numbered numToString idx (allTokens tree)"
    by simp_all
  from f show "fieldIndices (fst (wrapWithField_state numToString tree idx)) =
          [idx ..< idx + length (allTokens tree)]"
    by (simp add: fieldIndices_def fieldIndex_numbered)
  from nf show "fieldIndices (wrapWithField numToString tree) = [1 ..< length (allTokens tree) + 1]"
    by (rule wrapWithField_fieldIndices)
next
  assume h: "name node = Some a \<and> value' node = []
       \<and> findBestMatch calculateScore KeywordRef (Some (getUnmatchedPart a (prop_key snippet)))
            (getKeywords snippet) None = None
       \<and> prop_value snippet = defaultValue # alternatives
       \<and> \<not> hasField_arguments defaultValue"
  then show "resolveAsProperty calculateScore getKeywords numToString node snippet config =
        Inr (OwnValue (node\<lparr>name := Some (property snippet),
                  value' := map (wrapWithField numToString) defaultValue\<rparr>))"
    by (simp add: resolveAsProperty_def resolveSnippetKeyword_def)
  show "\<forall>v\<in>set defaultValue.
            fieldIndices (wrapWithField numToString v) = [1 ..< length (allTokens v) + 1]"
  proof
    fix v assume "v \<in> set defaultValue"
    with h have "\<not> hasField v"
      by (blast dest: hasField_arguments_member)
    then show "fieldIndices (wrapWithField numToString v) = [1 ..< length (allTokens v) + 1]"
      by (rule wrapWithField_fieldIndices)
  qed
qed

theorem wrapWithField_numbering_witness:
  "fieldIndices (wrapWithField exampleNumToString
      (CSSValue [Literal ''a'',
                 FunctionCall ''f''
                   [CSSValue [NumberValue 1 ''px'', FunctionCall ''g'' [CSSValue [Literal ''b'']]],
                    CSSValue [StringValue ''c'' double]],
                 ColorValue 0 0 0 1 ''#000''])) = [1, 2, 3, 4, 5, 6, 7]
   \<and> resolveAsProperty exampleScore exampleGetKeywords exampleNumToString
        \<lparr>name = Some ''trf'', value' = [], important = False\<rparr> exampleTransform exampleConfig =
      Inr (OwnValue
        \<lparr>name = Some ''transform'',
         value' = [CSSValue [Field 1 ''scale'', Literal ''('', Field 2 ''1'', Field 3 ''x'',
                             Literal '', '', Field 4 ''y'', Literal '')'', Field 5 ''z''],
                   CSSValue [Field 1 ''none'']],
         important = False\<rparr>)"
proof -
  have rem: "getUnmatchedPart ''trf'' ''trf'' = []"
    by (simp add: getUnmatchedPart_def getUnmatchedPart_loop_greedy)
  have none: "findBestMatch exampleScore KeywordRef (Some (getUnmatchedPart ''trf'' ''trf''))
                (exampleGetKeywords exampleTransform) None = None"
    by (simp add: rem exampleGetKeywords_def exampleTransform_def findBestMatch_def
        minScoreOrDefault_def)
  have dv: "prop_value exampleTransform =
      [CSSValue [FunctionCall ''scale''
                     [CSSValue [NumberValue 1 [], Literal ''x''], CSSValue [Literal ''y'']],
                   Literal ''z''],
         CSSValue [Literal ''none'']] # []"
    by (simp add: exampleTransform_def)
  show ?thesis
    using wrapWithField_numbering [of
      "CSSValue [Literal ''a'',
                 FunctionCall ''f''
                   [CSSValue [NumberValue 1 ''px'', FunctionCall ''g'' [CSSValue [Literal ''b'']]],
                    CSSValue [StringValue ''c'' double]],
                 ColorValue 0 0 0 1 ''#000'']"
      exampleNumToString 1
      "\<lparr>name = Some ''trf'', value' = [], important = False\<rparr>" "''trf''"
      exampleScore exampleTransform exampleGetKeywords
      "[CSSValue [FunctionCall ''scale''
                     [CSSValue [NumberValue 1 [], Literal ''x''], CSSValue [Literal ''y'']],
                   Literal ''z''],
         CSSValue [Literal ''none'']]" "[]" exampleConfig] none dv
    by (simp add: exampleNumToString_def wrapWithField_def exampleTransform_def)
qed

text \<open>
  The claim as the specification states it fails twice. A default value of two groups is
  wrapped group by group, each call with a counter of its own, and the node holds the
  field index \<open>1\<close> twice; and the value \<open>f(a)\<close>, which has the one leaf \<open>a\<close>, gets
  the two indices \<open>1\<close> and \<open>2\<close>, the first for the name of the call.
\<close>

theorem wrapWithField_one_counter_counterexample:
  "resolveAsProperty exampleScore exampleGetKeywords exampleNumToString
     \<lparr>name = Some ''ff'', value' = [], important = False\<rparr> exampleFontFamily exampleConfig =
   Inr (OwnValue
     \<lparr>name = Some ''font-family'',
      value' = [CSSValue [Field 1 ''Arial''], CSSValue [Field 1 ''Helvetica'']],
      important = False\<rparr>)
   \<and> wrapWithField exampleNumToString (CSSValue [FunctionCall ''f'' [CSSValue [Literal ''a'']]]) =
     CSSValue [Field 1 ''f'', Literal ''('', Field 2 ''a'', Literal '')'']"
proof -
  have rem: "getUnmatchedPart ''ff'' ''ff'' = []"
    by (simp add: getUnmatchedPart_def getUnmatchedPart_loop_greedy)
  show ?thesis
    by (simp add: resolveAsProperty_def resolveSnippetKeyword_def rem exampleGetKeywords_def
        exampleFontFamily_def findBestMatch_def minScoreOrDefault_def wrapWithField_def)
qed

section \<open>Properties of numeric-unit inference\<close>

lemma toInt32_range: "- (2 ^ 31) \<le> toInt32 x \<and> toInt32 x < 2 ^ 31"
proof -
  define m where "m = (if x < 0 then - \<lfloor>- x\<rfloor> else \<lfloor>x\<rfloor>) mod (2 ^ 32 :: int)"
  have "0 \<le> m" and "m < 2 ^ 32"
    by (simp_all add: m_def)
  moreover have "toInt32 x = (if m \<ge> 2 ^ 31 then m - 2 ^ 32 else m)"
    by (simp add: toInt32_def m_def Let_def)
  ultimately show ?thesis by simp
qed

lemma toInt32_of_int:
  assumes "- (2 ^ 31) \<le> n" and "n < 2 ^ 31"
  shows "toInt32 (of_int n) = n"
proof -
  have tr: "(if (of_int n :: real) < 0 then - \<lfloor>- (of_int n :: real)\<rfloor> else \<lfloor>of_int n :: real\<rfloor>) = n"
    by (simp flip: of_int_minus)
  have eq: "toInt32 (of_int n) =
      (if n mod 2 ^ 32 \<ge> 2 ^ 31 then n mod 2 ^ 32 - 2 ^ 32 else n mod 2 ^ 32)"
    unfolding toInt32_def Let_def tr ..
  show ?thesis
  proof (cases "0 \<le> n")
    case True
    then have "n mod 2 ^ 32 = n" using assms by simp
    then show ?thesis using assms by (simp add: eq)
  next
    case False
    have "n mod 2 ^ 32 = (n + 2 ^ 32) mod 2 ^ 32" by simp
    also have "\<dots> = n + 2 ^ 32"
      by (rule mod_pos_pos_trivial) (use assms False in simp_all)
    finally show ?thesis using assms False by (simp add: eq)
  qed
qed

lemma whole_number_test:
  "x = of_int (toInt32 x) \<longleftrightarrow> x \<in> \<int> \<and> - (2 ^ 31) \<le> x \<and> x < 2 ^ 31"
proof
  assume h: "x = of_int (toInt32 x)"
  define n where "n = toInt32 x"
  have xn: "x = of_int n" using h by (simp add: n_def)
  have "- (2 ^ 31) \<le> n" "n < 2 ^ 31"
    using toInt32_range [of x] by (simp_all add: n_def)
  then have "of_int (- (2 ^ 31)) \<le> (of_int n :: real)" "(of_int n :: real) < of_int (2 ^ 31)"
    by (simp_all only: of_int_le_iff of_int_less_iff)
  then have "- (2 ^ 31) \<le> (of_int n :: real)" "(of_int n :: real) < 2 ^ 31"
    by simp_all
  then show "x \<in> \<int> \<and> - (2 ^ 31) \<le> x \<and> x < 2 ^ 31"
    by (simp add: xn)
next
  assume "x \<in> \<int> \<and> - (2 ^ 31) \<le> x \<and> x < 2 ^ 31"
  then obtain n where n: "x = of_int n" and "- (2 ^ 31) \<le> x" "x < 2 ^ 31"
    by (auto elim: Ints_cases)
  then have "(of_int (- (2 ^ 31)) :: real) \<le> of_int n" "(of_int n :: real) < of_int (2 ^ 31)"
    by simp_all
  then have "- (2 ^ 31) \<le> n" "n < 2 ^ 31"
    by (simp_all only: of_int_le_iff of_int_less_iff)
  then show "x = of_int (toInt32 x)"
    using n by (simp add: toInt32_of_int)
qed

lemma unitAlias_nonempty: "u \<noteq> [] \<Longrightarrow> unitAlias config u \<noteq> []"
  by (simp add: unitAlias_def split: option.splits)

lemma resolveNumericValue_token_idem:
  assumes "aliasesSettled config"
  shows "resolveNumericValue_token config nm (resolveNumericValue_token config nm t) =
           resolveNumericValue_token config nm t"
proof (cases t)
  case (NumberValue x u)
  then show ?thesis
    using assms unitAlias_nonempty [of u config]
    by (auto simp: aliasesSettled_def)
qed simp_all

lemma resolveNumericValue_value_idem:
  "aliasesSettled config \<Longrightarrow>
   resolveNumericValue_value config nm (resolveNumericValue_value config nm v) =
     resolveNumericValue_value config nm v"
  by (cases v) (simp add: resolveNumericValue_token_idem)

lemma stripUnit_resolve: "stripUnit (resolveNumericValue_token config nm t) = stripUnit t"
  by (cases t) auto

lemma resolveNumericValue_token_NumberValue:
  "resolveNumericValue_token config nm (NumberValue x u) =
     (if u \<noteq> [] then NumberValue x (unitAlias config u)
      else if x = 0 \<or> isUnitless config nm then NumberValue x []
      else if x \<in> \<int> \<and> - (2 ^ 31) \<le> x \<and> x < 2 ^ 31 then NumberValue x (intUnit config)
      else NumberValue x (floatUnit config))"
  using whole_number_test [of x] by auto

lemma resolveNumericValue_idem:
  assumes "aliasesSettled config"
  shows "resolveNumericValue config (resolveNumericValue config node) =
           resolveNumericValue config node"
  using assms by (simp add: resolveNumericValue_def resolveNumericValue_value_idem)

lemma stripUnit_resolveNumericValue:
  "map (map stripUnit \<circ> tokensOf) (value' (resolveNumericValue config node)) =
     map (map stripUnit \<circ> tokensOf) (value' node)"
proof -
  have "map stripUnit (tokensOf (resolveNumericValue_value config nm v)) =
          map stripUnit (tokensOf v)" for nm v
    by (cases v) (simp add: stripUnit_resolve)
  then show ?thesis
    by (simp add: resolveNumericValue_def)
qed

text \<open>
  Claim C4, at the input where the code leaves it. The whole number \<open>2147483648\<close>
  (\<open>2^31\<close>), without a unit, in a property that is not unitless: \<open>num | 0\<close> wraps
  it to \<open>-2147483648\<close>, the test for a whole number fails, and the token gets the
  float unit \<open>em\<close> where the comment of the source and the claim give integers the
  integer unit \<open>px\<close>. (Within the signed 32-bit range the code does what the claim
  says: \<open>resolveNumericValue_token_NumberValue\<close>.)
\<close>

theorem resolveNumericValue_large_whole_number:
  "resolveNumericValue exampleConfig
     \<lparr>name = Some ''width'', value' = [CSSValue [NumberValue 2147483648 []]], important = False\<rparr>
   = \<lparr>name = Some ''width'', value' = [CSSValue [NumberValue 2147483648 ''em'']],
      important = False\<rparr>"
  by (simp add: resolveNumericValue_def exampleConfig_def isUnitless_def toInt32_def)

text \<open>
  Claim C5, as the code has it. A token with an explicit unit changes in nothing but that
  unit, which becomes its alias; and when the aliases are settled, resolving a resolved
  node again changes nothing.
\<close>

theorem resolveNumericValue_idempotent:
  "(u \<noteq> [] \<longrightarrow>
      resolveNumericValue_token config nm (NumberValue x u) = NumberValue x (unitAlias config u))
   \<and> (aliasesSettled config \<longrightarrow>
      resolveNumericValue config (resolveNumericValue config node) =
        resolveNumericValue config node)"
  by (simp add: resolveNumericValue_idem)

theorem resolveNumericValue_idempotent_witness:
  "resolveNumericValue_token exampleConfig (Some ''width'') (NumberValue 10 ''e'') =
     NumberValue 10 ''em''
   \<and> resolveNumericValue exampleConfig
        \<lparr>name = Some ''width'',
         value' = [CSSValue [NumberValue 10 [], NumberValue (3 / 2) [], NumberValue 2 ''e'',
                             NumberValue 0 [], Literal ''auto'']],
         important = False\<rparr> =
      \<lparr>name = Some ''width'',
       value' = [CSSValue [NumberValue 10 ''px'', NumberValue (3 / 2) ''em'', NumberValue 2 ''em'',
                           NumberValue 0 [], Literal ''auto'']],
       important = False\<rparr>
   \<and> resolveNumericValue exampleConfig
        \<lparr>name = Some ''width'',
         value' = [CSSValue [NumberValue 10 ''px'', NumberValue (3 / 2) ''em'', NumberValue 2 ''em'',
                             NumberValue 0 [], Literal ''auto'']],
         important = False\<rparr> =
      \<lparr>name = Some ''width'',
       value' = [CSSValue [NumberValue 10 ''px'', NumberValue (3 / 2) ''em'', NumberValue 2 ''em'',
                           NumberValue 0 [], Literal ''auto'']],
       important = False\<rparr>"
proof -
  have settled: "aliasesSettled exampleConfig"
    by (auto simp: aliasesSettled_def exampleConfig_def unitAlias_def)
  have first: "resolveNumericValue exampleConfig
        \<lparr>name = Some ''width'',
         value' = [CSSValue [NumberValue 10 [], NumberValue (3 / 2) [], NumberValue 2 ''e'',
                             NumberValue 0 [], Literal ''auto'']],
         important = False\<rparr> =
      \<lparr>name = Some ''width'',
       value' = [CSSValue [NumberValue 10 ''px'', NumberValue (3 / 2) ''em'', NumberValue 2 ''em'',
                           NumberValue 0 [], Literal ''auto'']],
       important = False\<rparr>"
    by (simp add: resolveNumericValue_def exampleConfig_def isUnitless_def toInt32_def
        unitAlias_def)
  show ?thesis
    using resolveNumericValue_idempotent [of "''e''" exampleConfig "Some ''width''" 10
        "\<lparr>name = Some ''width'',
         value' = [CSSValue [NumberValue 10 [], NumberValue (3 / 2) [], NumberValue 2 ''e'',
                             NumberValue 0 [], Literal ''auto'']],
         important = False\<rparr>"] settled
    by (simp add: first) (simp add: exampleConfig_def unitAlias_def)
qed

text \<open>
  The claim as the specification states it (for every configuration) fails where an alias
  maps to a unit that has an alias of its own: the second run moves \<open>10em\<close> on to
  \<open>10rem\<close>.
\<close>

theorem resolveNumericValue_twice_counterexample:
  "resolveNumericValue chainedConfig
     \<lparr>name = Some ''width'', value' = [CSSValue [NumberValue 10 ''e'']], important = False\<rparr> =
     \<lparr>name = Some ''width'', value' = [CSSValue [NumberValue 10 ''em'']], important = False\<rparr>
   \<and> resolveNumericValue chainedConfig
        \<lparr>name = Some ''width'', value' = [CSSValue [NumberValue 10 ''em'']],
         important = False\<rparr> =
      \<lparr>name = Some ''width'', value' = [CSSValue [NumberValue 10 ''rem'']], important = False\<rparr>
   \<and> resolveNumericValue chainedConfig (resolveNumericValue chainedConfig
        \<lparr>name = Some ''width'', value' = [CSSValue [NumberValue 10 ''e'']],
         important = False\<rparr>) \<noteq>
      resolveNumericValue chainedConfig
        \<lparr>name = Some ''width'', value' = [CSSValue [NumberValue 10 ''e'']], important = False\<rparr>"
  by (simp add: resolveNumericValue_def chainedConfig_def exampleConfig_def unitAlias_def)

section \<open>Properties of node resolution\<close>

lemma findBestMatch_loop_map:
  "findBestMatch_loop sc (map f xs) (map_option f matchedItem) maxScore minScore =
     map_option f (findBestMatch_loop (sc \<circ> f) xs matchedItem maxScore minScore)"
proof (induction xs arbitrary: matchedItem maxScore)
  case Nil
  then show ?case by simp
next
  case (Cons a xs)
  show ?case
    using Cons.IH [of "Some a" "sc (f a)"] Cons.IH [of matchedItem maxScore]
    by (simp add: Let_def)
qed

lemma findBestMatch_map:
  "findBestMatch calculateScore incl abbr (map f xs) minScore =
     map_option f (findBestMatch calculateScore (incl \<circ> f) abbr xs minScore)"
proof -
  have "itemScore calculateScore incl abbr \<circ> f = itemScore calculateScore (incl \<circ> f) abbr"
    by (rule ext) (simp add: itemScore_def)
  then show ?thesis
    using findBestMatch_loop_map [of "itemScore calculateScore incl abbr" f xs None]
    by (simp add: findBestMatch_def)
qed

lemma findBestMatch_positions:
  "findBestMatch calculateScore Snippet abbr snippets minScore =
     map_option snd
       (findBestMatch calculateScore (Snippet \<circ> snd) abbr (enumerate 0 snippets) minScore)"
  using findBestMatch_map [of calculateScore Snippet abbr snd "enumerate 0 snippets" minScore]
  by simp

text \<open>
  Claim C7. Outside context mode, a node whose name \<open>findBestMatch\<close> matches with no
  snippet at the configured minimum score is resolved without an error, and the result is
  the node after numeric-unit inference alone: the same name, the same flag, and the
  same values and tokens but for the units of its numbers. The snippets are as they were.
\<close>

theorem resolveNode_no_match:
  assumes "contextName config = None"
    and "findBestMatch calculateScore Snippet (name node) snippets
           (Some (fuzzySearchMinScore config)) = None"
  shows "resolveNode calculateScore getKeywords numToString node snippets config =
           Inr (resolveNumericValue config node, snippets)
         \<and> name (resolveNumericValue config node) = name node
         \<and> important (resolveNumericValue config node) = important node
         \<and> map (map stripUnit \<circ> tokensOf) (value' (resolveNumericValue config node)) =
             map (map stripUnit \<circ> tokensOf) (value' node)"
proof -
  from assms(2) have "findBestMatch calculateScore (Snippet \<circ> snd) (name node)
      (enumerate 0 snippets) (Some (fuzzySearchMinScore config)) = None"
    by (simp add: findBestMatch_positions)
  with assms(1) have "resolveNode calculateScore getKeywords numToString node snippets config =
           Inr (resolveNumericValue config node, snippets)"
    by (simp add: resolveNode_def resolveNumericValue_of_def)
  then show ?thesis
    by (simp add: stripUnit_resolveNumericValue) (simp add: resolveNumericValue_def)
qed

theorem resolveNode_no_match_witness:
  "resolveNode exampleScore exampleGetKeywords exampleNumToString
     \<lparr>name = Some ''zz'', value' = [CSSValue [NumberValue 10 [], Literal ''solid'']],
      important = False\<rparr> exampleSnippets exampleConfig =
   Inr (\<lparr>name = Some ''zz'', value' = [CSSValue [NumberValue 10 ''px'', Literal ''solid'']],
         important = False\<rparr>, exampleSnippets)"
proof -
  have ctx: "contextName exampleConfig = None"
    by (simp add: contextName_def exampleConfig_def)
  have none: "findBestMatch exampleScore Snippet
      (name \<lparr>name = Some ''zz'', value' = [CSSValue [NumberValue 10 [], Literal ''solid'']],
             important = False\<rparr>) exampleSnippets
      (Some (fuzzySearchMinScore exampleConfig)) = None"
    by (simp add: findBestMatch_def itemScore_def exampleScore_def exampleSnippets_def
        examplePosition_def exampleTransform_def minScoreOrDefault_def exampleConfig_def)
  show ?thesis
    using resolveNode_no_match [OF ctx none, of exampleGetKeywords exampleNumToString]
    by (simp add: resolveNumericValue_def exampleConfig_def isUnitless_def toInt32_def)
qed

text \<open>
  A default value with fields is taken from the snippet as the object it is: the units of
  the node are written into the snippet.
\<close>

lemma resolveNode_writes_shared_default:
  "resolveNode exampleScore exampleGetKeywords exampleNumToString
     \<lparr>name = Some ''m'', value' = [], important = False\<rparr>
     [Property examplePosition, Property exampleMargin] exampleConfig =
   Inr (\<lparr>name = Some ''margin'', value' = [CSSValue [Field 1 ''auto'', NumberValue 5 ''px'']],
         important = False\<rparr>,
        [Property examplePosition,
         Property (CSSSnippetProperty ''m'' ''margin''
                     [[CSSValue [Field 1 ''auto'', NumberValue 5 ''px'']]])])"
  by (simp add: resolveNode_def contextName_def exampleConfig_def findBestMatch_def
      itemScore_def exampleScore_def minScoreOrDefault_def
      examplePosition_def exampleMargin_def resolveAsProperty_def resolveSnippetKeyword_def
      exampleGetKeywords_def getUnmatchedPart_def getUnmatchedPart_loop_greedy
      resolveNumericValue_of_def resolveNumericValue_def 
      writeAlternative_def isUnitless_def toInt32_def Let_def)

section \<open>Where the minimum score applies\<close>

lemma findBestMatch_loop_member:
  "findBestMatch_loop sc items matchedItem maxScore minScore = Some y \<Longrightarrow>
   y \<in> set items \<or> matchedItem = Some y"
  by (induction items arbitrary: matchedItem maxScore)
     (auto simp: Let_def split: if_splits)

lemma findBestMatch_member:
  "findBestMatch calculateScore incl abbr items minScore = Some y \<Longrightarrow> y \<in> set items"
  by (auto simp: findBestMatch_def dest: findBestMatch_loop_member)

lemma findBestMatch_default_positive:
  assumes "x \<in> set items" and "0 < itemScore calculateScore incl abbr x"
  shows "\<exists>y\<in>set items. findBestMatch calculateScore incl abbr items None = Some y"
proof -
  let ?sc = "itemScore calculateScore incl abbr"
  have "findBestMatch calculateScore incl abbr items None \<noteq> None"
  proof (cases "find (\<lambda>x. ?sc x = 1) items")
    case None
    then have "\<forall>x\<in>set items. ?sc x \<noteq> 1"
      by (simp add: find_None_iff)
    then have "findBestMatch_loop ?sc items None 0 0 = None \<longleftrightarrow>
        ((\<forall>x\<in>set items. ?sc x < 0) \<and> (0::real) < 0)
        \<or> ((None :: 'a option) = None \<and> (\<forall>x\<in>set items. \<not> 0 < ?sc x))"
      by (intro findBestMatch_loop_None_iff) auto
    then show ?thesis
      using assms by (auto simp: findBestMatch_def minScoreOrDefault_def)
  next
    case (Some p)
    then show ?thesis
      by (simp add: findBestMatch_def findBestMatch_loop_perfect)
  qed
  then show ?thesis
    by (auto dest: findBestMatch_member)
qed

lemma findBestMatch_loop_threshold:
  assumes "0 \<le> maxScore"
    and "\<forall>y. matchedItem = Some y \<longrightarrow> sc y = maxScore \<and> sc y \<noteq> 1"
  shows "findBestMatch_loop sc items matchedItem maxScore m =
           (case findBestMatch_loop sc items matchedItem maxScore 0 of
              None \<Rightarrow> None
            | Some y \<Rightarrow> (if sc y = 1 \<or> m \<le> sc y then Some y else None))"
  using assms
proof (induction items arbitrary: matchedItem maxScore)
  case Nil
  then show ?case by (cases matchedItem) auto
next
  case (Cons x items)
  show ?case
  proof (cases "sc x = 1")
    case True
    then show ?thesis by simp
  next
    case False
    show ?thesis
    proof (cases "sc x \<noteq> 0 \<and> sc x \<ge> maxScore")
      case True
      have L: "findBestMatch_loop sc (x # items) matchedItem maxScore m =
                 findBestMatch_loop sc items (Some x) (sc x) m"
        and R: "findBestMatch_loop sc (x # items) matchedItem maxScore 0 =
                 findBestMatch_loop sc items (Some x) (sc x) 0"
        using False True by (simp_all add: Let_def)
      have "0 \<le> sc x" using True Cons.prems(1) by simp
      moreover have "\<forall>y. Some x = Some y \<longrightarrow> sc y = sc x \<and> sc y \<noteq> 1"
        using False by simp
      ultimately have "findBestMatch_loop sc items (Some x) (sc x) m =
           (case findBestMatch_loop sc items (Some x) (sc x) 0 of
              None \<Rightarrow> None
            | Some y \<Rightarrow> (if sc y = 1 \<or> m \<le> sc y then Some y else None))"
        by (rule Cons.IH)
      then show ?thesis by (simp only: L R)
    next
      case no: False
      have L: "findBestMatch_loop sc (x # items) matchedItem maxScore m =
                 findBestMatch_loop sc items matchedItem maxScore m"
        and R: "findBestMatch_loop sc (x # items) matchedItem maxScore 0 =
                 findBestMatch_loop sc items matchedItem maxScore 0"
        using False no by (auto simp: Let_def)
      have "findBestMatch_loop sc items matchedItem maxScore m =
           (case findBestMatch_loop sc items matchedItem maxScore 0 of
              None \<Rightarrow> None
            | Some y \<Rightarrow> (if sc y = 1 \<or> m \<le> sc y then Some y else None))"
        using Cons.prems by (rule Cons.IH)
      then show ?thesis by (simp only: L R)
    qed
  qed
qed

lemma findBestMatch_threshold:
  "findBestMatch calculateScore incl abbr items (Some m) =
     bestAccepted calculateScore incl abbr items m"
proof -
  have "findBestMatch_loop (itemScore calculateScore incl abbr) items None 0 m =
     (case findBestMatch_loop (itemScore calculateScore incl abbr) items None 0 0 of
        None \<Rightarrow> None
      | Some y \<Rightarrow>
          (if itemScore calculateScore incl abbr y = 1 \<or> m \<le> itemScore calculateScore incl abbr y
           then Some y else None))"
    by (rule findBestMatch_loop_threshold) simp_all
  then show ?thesis
    by (simp only: findBestMatch_def bestAccepted_def minScoreOrDefault_def option.case)
qed

lemma resolveGlobalKeyword_update_minScore:
  "resolveGlobalKeyword cs node kw (config\<lparr>fuzzySearchMinScore := m\<rparr>) ms =
     resolveGlobalKeyword cs node kw config ms"
  by (simp add: resolveGlobalKeyword_def)

lemma resolveAsProperty_update_minScore:
  "resolveAsProperty cs gk ns node sn (config\<lparr>fuzzySearchMinScore := m\<rparr>) =
     resolveAsProperty cs gk ns node sn config"
  unfolding resolveAsProperty_def resolveGlobalKeyword_update_minScore ..

lemma resolveAsProperty_remainder_keyword:
  assumes "name node = Some a" and "value' node = []"
    and "r \<in> set (gk sn)"
    and "0 < itemScore cs KeywordRef (Some (getUnmatchedPart a (prop_key sn))) r"
  shows "\<exists>ref\<in>set (gk sn).
           findBestMatch cs KeywordRef (Some (getUnmatchedPart a (prop_key sn))) (gk sn) None = Some ref
           \<and> resolveAsProperty cs gk ns node sn config =
               Inr (if index ref < length (prop_value sn)
                    then SnippetValue
                           (node\<lparr>name := Some (property sn), value' := prop_value sn ! index ref\<rparr>)
                           (index ref)
                    else NoValue (Some (property sn)) (important node))"
proof -
  from findBestMatch_default_positive [OF assms(3,4)] obtain ref where
    "ref \<in> set (gk sn)"
    "findBestMatch cs KeywordRef (Some (getUnmatchedPart a (prop_key sn))) (gk sn) None = Some ref"
    by blast
  then show ?thesis
    using assms(1,2) by (auto simp: resolveAsProperty_def resolveSnippetKeyword_def)
qed

lemma resolveAsProperty_literal_keyword:
  assumes "value' node = [CSSValue [Literal kw]]"
    and "r \<in> set (gk sn)"
    and "0 < itemScore cs KeywordRef (Some kw) r"
  shows "\<exists>ref\<in>set (gk sn).
           findBestMatch cs KeywordRef (Some kw) (gk sn) None = Some ref
           \<and> resolveAsProperty cs gk ns node sn config =
               Inr (if index ref < length (prop_value sn)
                    then SnippetValue
                           (node\<lparr>name := Some (property sn), value' := prop_value sn ! index ref\<rparr>)
                           (index ref)
                    else NoValue (Some (property sn)) (important node))"
proof -
  from findBestMatch_default_positive [OF assms(2,3)] obtain ref where
    "ref \<in> set (gk sn)"
    "findBestMatch cs KeywordRef (Some kw) (gk sn) None = Some ref"
    by blast
  then show ?thesis
    using assms(1) by (auto simp: resolveAsProperty_def resolveSnippetKeyword_def)
qed

lemma resolveAsProperty_global_keyword:
  assumes "value' node = [CSSValue [Literal kw]]"
    and "findBestMatch cs KeywordRef (Some kw) (gk sn) None = None"
    and "g \<in> set (keywords' config)"
    and "0 < itemScore cs Str (Some kw) g"
  shows "\<exists>ref\<in>set (keywords' config).
           findBestMatch cs Str (Some kw) (keywords' config) None = Some ref
           \<and> resolveAsProperty cs gk ns node sn config =
               Inr (OwnValue (if ref \<noteq> []
                    then node\<lparr>name := Some (property sn), value' := [literalValue ref]\<rparr>
                    else node\<lparr>name := Some (property sn)\<rparr>))"
proof -
  from findBestMatch_default_positive [OF assms(3,4)] obtain ref where
    "ref \<in> set (keywords' config)"
    "findBestMatch cs Str (Some kw) (keywords' config) None = Some ref"
    by blast
  then show ?thesis
    using assms(1,2)
    by (auto simp: resolveAsProperty_def resolveSnippetKeyword_def resolveGlobalKeyword_def)
qed

lemma resolveNode_threshold:
  assumes "contextName config = None"
  shows "resolveNode cs gk ns node snippets config =
     (case bestAccepted cs (Snippet \<circ> snd) (name node) (enumerate 0 snippets)
             (fuzzySearchMinScore config) of
        None \<Rightarrow> Inr (resolveNumericValue config node, snippets)
      | Some (k, Property p) \<Rightarrow>
          (case resolveAsProperty cs gk ns node p config of
             Inl e \<Rightarrow> Inl e
           | Inr resolved \<Rightarrow> resolveNumericValue_of config snippets k resolved)
      | Some (k, Raw r) \<Rightarrow> Inr (resolveNumericValue config (resolveAsSnippet node r), snippets))"
  using assms
  by (simp add: resolveNode_def findBestMatch_threshold resolveNumericValue_of_def
      split: option.splits prod.splits CSSSnippet.splits)

lemma resolveAsPropertyValue_threshold:
  assumes "value' node = [CSSValue [Literal kw]]"
  shows "resolveAsPropertyValue cs gk node config (Some sn) =
     (case bestAccepted cs KeywordRef (Some kw) (gk sn) (fuzzySearchMinScore config) of
        Some ref \<Rightarrow>
          (if index ref < length (prop_value sn)
           then SnippetValue (node\<lparr>value' := prop_value sn ! index ref\<rparr>) (index ref)
           else NoValue (name node) (important node))
      | None \<Rightarrow>
          (case bestAccepted cs Str (Some kw) (keywords' config) (fuzzySearchMinScore config) of
             Some g \<Rightarrow> OwnValue (if g \<noteq> [] then node\<lparr>value' := [literalValue g]\<rparr> else node)
           | None \<Rightarrow> OwnValue node))"
    and "resolveAsPropertyValue cs gk node config None =
     (case bestAccepted cs Str (Some kw) (keywords' config) (fuzzySearchMinScore config) of
        Some g \<Rightarrow> OwnValue (if g \<noteq> [] then node\<lparr>value' := [literalValue g]\<rparr> else node)
      | None \<Rightarrow> OwnValue node)"
  using assms
  by (simp_all add: resolveAsPropertyValue_def resolveSnippetKeyword_def resolveGlobalKeyword_def
      findBestMatch_threshold split: option.splits)

lemma exampleGetKeywords_examplePosition:
  "exampleGetKeywords examplePosition = [exampleRef ''relative'' 0, exampleRef ''absolute'' 1]"
  by (simp add: exampleGetKeywords_def examplePosition_def)

text \<open>
  Claim C10. \<open>resolveAsProperty\<close> does not depend on the configured minimum score.
  Its keyword lookups run with the default \<open>0\<close>, so that one candidate with a
  positive score is enough for a match: for the unmatched part of the name when the node
  has no value, and for a single literal value against the keywords of the snippet and
  then against the global keywords. A lookup with a threshold accepts the best candidate
  when its score is \<open>1\<close> or at least the threshold, and no candidate otherwise
  (\<open>bestAccepted\<close>); with the configured threshold, that is how \<open>resolveNode\<close>
  matches the name of a node outside context mode, and how \<open>resolveAsPropertyValue\<close>
  matches a single literal value against the keywords of the snippet and then against
  the global keywords.
\<close>

theorem resolveAsProperty_default_minScore:
  "resolveAsProperty cs gk ns node sn (config\<lparr>fuzzySearchMinScore := m\<rparr>) =
     resolveAsProperty cs gk ns node sn config
   \<and> (name nodeA = Some a \<and> value' nodeA = [] \<and> r \<in> set (gk sn)
       \<and> 0 < itemScore cs KeywordRef (Some (getUnmatchedPart a (prop_key sn))) r \<longrightarrow>
      (\<exists>ref\<in>set (gk sn).
         findBestMatch cs KeywordRef (Some (getUnmatchedPart a (prop_key sn))) (gk sn) None =
           Some ref
         \<and> resolveAsProperty cs gk ns nodeA sn config =
             Inr (if index ref < length (prop_value sn)
                  then SnippetValue
                         (nodeA\<lparr>name := Some (property sn), value' := prop_value sn ! index ref\<rparr>)
                         (index ref)
                  else NoValue (Some (property sn)) (important nodeA))))
   \<and> (value' nodeB = [CSSValue [Literal kw]] \<and> r' \<in> set (gk sn)
       \<and> 0 < itemScore cs KeywordRef (Some kw) r' \<longrightarrow>
      (\<exists>ref\<in>set (gk sn).
         findBestMatch cs KeywordRef (Some kw) (gk sn) None = Some ref
         \<and> resolveAsProperty cs gk ns nodeB sn config =
             Inr (if index ref < length (prop_value sn)
                  then SnippetValue
                         (nodeB\<lparr>name := Some (property sn), value' := prop_value sn ! index ref\<rparr>)
                         (index ref)
                  else NoValue (Some (property sn)) (important nodeB))))
   \<and> (value' nodeC = [CSSValue [Literal kw']]
       \<and> findBestMatch cs KeywordRef (Some kw') (gk sn) None = None
       \<and> g \<in> set (keywords' config) \<and> 0 < itemScore cs Str (Some kw') g \<longrightarrow>
      (\<exists>ref\<in>set (keywords' config).
         findBestMatch cs Str (Some kw') (keywords' config) None = Some ref
         \<and> resolveAsProperty cs gk ns nodeC sn config =
             Inr (OwnValue (if ref \<noteq> []
                  then nodeC\<lparr>name := Some (property sn), value' := [literalValue ref]\<rparr>
                  else nodeC\<lparr>name := Some (property sn)\<rparr>))))
   \<and> findBestMatch cs incl abbr items (Some threshold) = bestAccepted cs incl abbr items threshold
   \<and> (contextName config = None \<longrightarrow>
      resolveNode cs gk ns nodeD snippets config =
        (case bestAccepted cs (Snippet \<circ> snd) (name nodeD) (enumerate 0 snippets)
                (fuzzySearchMinScore config) of
           None \<Rightarrow> Inr (resolveNumericValue config nodeD, snippets)
         | Some (k, Property p) \<Rightarrow>
             (case resolveAsProperty cs gk ns nodeD p config of
                Inl e \<Rightarrow> Inl e
              | Inr resolved \<Rightarrow> resolveNumericValue_of config snippets k resolved)
         | Some (k, Raw raw) \<Rightarrow>
             Inr (resolveNumericValue config (resolveAsSnippet nodeD raw), snippets)))
   \<and> (value' nodeE = [CSSValue [Literal kw'']] \<longrightarrow>
      resolveAsPropertyValue cs gk nodeE config (Some sn) =
        (case bestAccepted cs KeywordRef (Some kw'') (gk sn) (fuzzySearchMinScore config) of
           Some ref \<Rightarrow>
             (if index ref < length (prop_value sn)
              then SnippetValue (nodeE\<lparr>value' := prop_value sn ! index ref\<rparr>) (index ref)
              else NoValue (name nodeE) (important nodeE))
         | None \<Rightarrow>
             (case bestAccepted cs Str (Some kw'') (keywords' config)
                     (fuzzySearchMinScore config) of
                Some g \<Rightarrow>
                  OwnValue (if g \<noteq> [] then nodeE\<lparr>value' := [literalValue g]\<rparr> else nodeE)
              | None \<Rightarrow> OwnValue nodeE))
      \<and> resolveAsPropertyValue cs gk nodeE config None =
        (case bestAccepted cs Str (Some kw'') (keywords' config) (fuzzySearchMinScore config) of
           Some g \<Rightarrow> OwnValue (if g \<noteq> [] then nodeE\<lparr>value' := [literalValue g]\<rparr> else nodeE)
         | None \<Rightarrow> OwnValue nodeE))"
  apply (intro conjI impI; (elim conjE)?)
  subgoal by (rule resolveAsProperty_update_minScore)
  subgoal by (erule (3) resolveAsProperty_remainder_keyword)
  subgoal by (erule (2) resolveAsProperty_literal_keyword)
  subgoal by (erule (3) resolveAsProperty_global_keyword)
  subgoal by (rule findBestMatch_threshold)
  subgoal by (erule resolveNode_threshold)
  subgoal by (erule resolveAsPropertyValue_threshold(1))
  subgoal by (erule resolveAsPropertyValue_threshold(2))
  done

theorem resolveAsProperty_default_minScore_witness:
  "resolveAsProperty exampleScore exampleGetKeywords exampleNumToString
     \<lparr>name = Some ''poas'', value' = [], important = False\<rparr> examplePosition strictConfig =
     Inr (SnippetValue \<lparr>name = Some ''position'', value' = [CSSValue [Literal ''absolute'']],
                        important = False\<rparr> 1)
   \<and> resolveAsProperty exampleScore exampleGetKeywords exampleNumToString
       \<lparr>name = Some ''pos'', value' = [CSSValue [Literal ''in'']], important = False\<rparr>
       examplePosition strictConfig =
     Inr (OwnValue \<lparr>name = Some ''position'', value' = [CSSValue [Literal ''inherit'']],
                    important = False\<rparr>)
   \<and> resolveNode exampleScore exampleGetKeywords exampleNumToString
       \<lparr>name = Some ''poas'', value' = [], important = False\<rparr> exampleSnippets strictConfig =
     Inr (\<lparr>name = Some ''poas'', value' = [], important = False\<rparr>, exampleSnippets)
   \<and> resolveNode exampleScore exampleGetKeywords exampleNumToString
       \<lparr>name = Some ''poas'', value' = [], important = False\<rparr> exampleSnippets exampleConfig =
     Inr (\<lparr>name = Some ''position'', value' = [CSSValue [Literal ''absolute'']],
           important = False\<rparr>, exampleSnippets)
   \<and> resolveAsPropertyValue exampleScore exampleGetKeywords
       \<lparr>name = None, value' = [CSSValue [Literal ''abs'']], important = False\<rparr>
       strictConfig (Some examplePosition) =
     OwnValue \<lparr>name = None, value' = [CSSValue [Literal ''abs'']], important = False\<rparr>
   \<and> resolveAsPropertyValue exampleScore exampleGetKeywords
       \<lparr>name = None, value' = [CSSValue [Literal ''abs'']], important = False\<rparr>
       exampleConfig (Some examplePosition) =
     SnippetValue \<lparr>name = None, value' = [CSSValue [Literal ''absolute'']],
                   important = False\<rparr> 1"
proof -
  let ?poas = "\<lparr>name = Some ''poas'', value' = [], important = False\<rparr>"
  let ?in = "\<lparr>name = Some ''pos'', value' = [CSSValue [Literal ''in'']], important = False\<rparr>"
  let ?abs = "\<lparr>name = None, value' = [CSSValue [Literal ''abs'']], important = False\<rparr>"
  have rem: "getUnmatchedPart ''poas'' ''pos'' = ''as''"
    by (simp add: getUnmatchedPart_def getUnmatchedPart_loop_greedy)
  have key: "prop_key examplePosition = ''pos''"
    by (simp add: examplePosition_def)
  have pos: "0 < itemScore exampleScore KeywordRef
      (Some (getUnmatchedPart ''poas'' (prop_key examplePosition))) (exampleRef ''absolute'' 1)"
    by (simp add: rem key itemScore_def exampleScore_def exampleRef_def)
  have none: "findBestMatch exampleScore KeywordRef (Some ''in'')
                (exampleGetKeywords examplePosition) None = None"
    by (simp add: exampleGetKeywords_examplePosition exampleRef_def exampleScore_def findBestMatch_def
        itemScore_def minScoreOrDefault_def)
  have glob: "0 < itemScore exampleScore Str (Some ''in'') ''inherit''"
    by (simp add: itemScore_def exampleScore_def)
  have ctxS: "contextName strictConfig = None" and ctxE: "contextName exampleConfig = None"
    by (simp_all add: contextName_def strictConfig_def exampleConfig_def)
  note S = resolveAsProperty_default_minScore [where cs = exampleScore
        and gk = exampleGetKeywords and ns = exampleNumToString and sn = examplePosition
        and config = strictConfig and m = 0 and node = ?poas
        and nodeA = ?poas and a = "''poas''" and r = "exampleRef ''absolute'' 1"
        and nodeB = ?abs and kw = "''abs''" and r' = "exampleRef ''absolute'' 1"
        and nodeC = ?in and kw' = "''in''" and g = "''inherit''"
        and incl = Str and abbr = None and items = "[]" and threshold = 0
        and nodeD = ?poas and snippets = exampleSnippets
        and nodeE = ?abs and kw'' = "''abs''"]
  note E = resolveAsProperty_default_minScore [where cs = exampleScore
        and gk = exampleGetKeywords and ns = exampleNumToString and sn = examplePosition
        and config = exampleConfig and m = "9 / 10" and node = ?poas
        and nodeA = ?poas and a = "''poas''" and r = "exampleRef ''absolute'' 1"
        and nodeB = ?abs and kw = "''abs''" and r' = "exampleRef ''absolute'' 1"
        and nodeC = ?in and kw' = "''in''" and g = "''inherit''"
        and incl = Str and abbr = None and items = "[]" and threshold = 0
        and nodeD = ?poas and snippets = exampleSnippets
        and nodeE = ?abs and kw'' = "''abs''"]
  note S2 = S [THEN conjunct2, THEN conjunct1]
  note S4 = S [THEN conjunct2, THEN conjunct2, THEN conjunct2, THEN conjunct1]
  note S6 = S [THEN conjunct2, THEN conjunct2, THEN conjunct2, THEN conjunct2, THEN conjunct2,
               THEN conjunct1]
  note S7 = S [THEN conjunct2, THEN conjunct2, THEN conjunct2, THEN conjunct2, THEN conjunct2,
               THEN conjunct2]
  note E6 = E [THEN conjunct2, THEN conjunct2, THEN conjunct2, THEN conjunct2, THEN conjunct2,
               THEN conjunct1]
  note E7 = E [THEN conjunct2, THEN conjunct2, THEN conjunct2, THEN conjunct2, THEN conjunct2,
               THEN conjunct2]
  have 1: "resolveAsProperty exampleScore exampleGetKeywords exampleNumToString ?poas
             examplePosition strictConfig =
     Inr (SnippetValue \<lparr>name = Some ''position'', value' = [CSSValue [Literal ''absolute'']],
                        important = False\<rparr> 1)"
  proof -
    from S2 pos have "\<exists>ref\<in>set (exampleGetKeywords examplePosition).
         findBestMatch exampleScore KeywordRef
           (Some (getUnmatchedPart ''poas'' (prop_key examplePosition)))
           (exampleGetKeywords examplePosition) None = Some ref
         \<and> resolveAsProperty exampleScore exampleGetKeywords exampleNumToString ?poas
              examplePosition strictConfig =
             Inr (if index ref < length (prop_value examplePosition)
                  then SnippetValue
                         (?poas\<lparr>name := Some (property examplePosition),
                                 value' := prop_value examplePosition ! index ref\<rparr>)
                         (index ref)
                  else NoValue (Some (property examplePosition)) (important ?poas))"
      by (simp add: exampleGetKeywords_examplePosition)
    moreover have "findBestMatch exampleScore KeywordRef
           (Some (getUnmatchedPart ''poas'' (prop_key examplePosition)))
           (exampleGetKeywords examplePosition) None = Some (exampleRef ''absolute'' 1)"
      by (simp add: exampleGetKeywords_examplePosition rem key exampleRef_def exampleScore_def findBestMatch_def
          itemScore_def minScoreOrDefault_def)
    ultimately have "resolveAsProperty exampleScore exampleGetKeywords exampleNumToString ?poas
              examplePosition strictConfig =
             Inr (if index (exampleRef ''absolute'' 1) < length (prop_value examplePosition)
                  then SnippetValue
                         (?poas\<lparr>name := Some (property examplePosition),
                                 value' := prop_value examplePosition ! index (exampleRef ''absolute'' 1)\<rparr>)
                         (index (exampleRef ''absolute'' 1))
                  else NoValue (Some (property examplePosition)) (important ?poas))"
      by auto
    then show ?thesis
      by (simp add: exampleRef_def examplePosition_def)
  qed
  have 2: "resolveAsProperty exampleScore exampleGetKeywords exampleNumToString ?in
             examplePosition strictConfig =
     Inr (OwnValue \<lparr>name = Some ''position'', value' = [CSSValue [Literal ''inherit'']],
                    important = False\<rparr>)"
  proof -
    from S4 none glob have "\<exists>ref\<in>set (keywords' strictConfig).
         findBestMatch exampleScore Str (Some ''in'') (keywords' strictConfig) None = Some ref
         \<and> resolveAsProperty exampleScore exampleGetKeywords exampleNumToString ?in
              examplePosition strictConfig =
             Inr (OwnValue (if ref \<noteq> []
                  then ?in\<lparr>name := Some (property examplePosition), value' := [literalValue ref]\<rparr>
                  else ?in\<lparr>name := Some (property examplePosition)\<rparr>))"
      by (simp add: strictConfig_def exampleConfig_def)
    moreover have "findBestMatch exampleScore Str (Some ''in'') (keywords' strictConfig) None =
        Some ''inherit''"
      by (simp add: strictConfig_def exampleConfig_def exampleScore_def findBestMatch_def
          itemScore_def minScoreOrDefault_def)
    ultimately have "resolveAsProperty exampleScore exampleGetKeywords exampleNumToString ?in
              examplePosition strictConfig =
             Inr (OwnValue (if ''inherit'' \<noteq> []
                  then ?in\<lparr>name := Some (property examplePosition),
                            value' := [literalValue ''inherit'']\<rparr>
                  else ?in\<lparr>name := Some (property examplePosition)\<rparr>))"
      by auto
    then show ?thesis
      by (simp add: examplePosition_def literalValue_def literal_def)
  qed
  have baS: "bestAccepted exampleScore (Snippet \<circ> snd) (name ?poas) (enumerate 0 exampleSnippets)
               (fuzzySearchMinScore strictConfig) = None"
    and baE: "bestAccepted exampleScore (Snippet \<circ> snd) (name ?poas) (enumerate 0 exampleSnippets)
               (fuzzySearchMinScore exampleConfig) = Some (0, Property examplePosition)"
    by (simp_all add: bestAccepted_def findBestMatch_def itemScore_def exampleScore_def
        exampleSnippets_def examplePosition_def exampleTransform_def minScoreOrDefault_def
        strictConfig_def exampleConfig_def)
  have 3: "resolveNode exampleScore exampleGetKeywords exampleNumToString ?poas exampleSnippets
             strictConfig = Inr (?poas, exampleSnippets)"
  proof -
    from S6 ctxS have "resolveNode exampleScore exampleGetKeywords exampleNumToString ?poas
        exampleSnippets strictConfig =
        (case bestAccepted exampleScore (Snippet \<circ> snd) (name ?poas) (enumerate 0 exampleSnippets)
                (fuzzySearchMinScore strictConfig) of
           None \<Rightarrow> Inr (resolveNumericValue strictConfig ?poas, exampleSnippets)
         | Some (k, Property p) \<Rightarrow>
             (case resolveAsProperty exampleScore exampleGetKeywords exampleNumToString ?poas p
                     strictConfig of
                Inl e \<Rightarrow> Inl e
              | Inr resolved \<Rightarrow> resolveNumericValue_of strictConfig exampleSnippets k resolved)
         | Some (k, Raw raw) \<Rightarrow>
             Inr (resolveNumericValue strictConfig (resolveAsSnippet ?poas raw), exampleSnippets))"
      by blast
    then show ?thesis
      by (simp only: baS option.case) (simp add: resolveNumericValue_def)
  qed
  have oneE: "resolveAsProperty exampleScore exampleGetKeywords exampleNumToString ?poas
             examplePosition exampleConfig =
     Inr (SnippetValue \<lparr>name = Some ''position'', value' = [CSSValue [Literal ''absolute'']],
                        important = False\<rparr> 1)"
    using 1 E [THEN conjunct1] by (simp add: strictConfig_def)
  have 4: "resolveNode exampleScore exampleGetKeywords exampleNumToString ?poas exampleSnippets
             exampleConfig =
     Inr (\<lparr>name = Some ''position'', value' = [CSSValue [Literal ''absolute'']],
           important = False\<rparr>, exampleSnippets)"
  proof -
    from E6 ctxE have "resolveNode exampleScore exampleGetKeywords exampleNumToString ?poas
        exampleSnippets exampleConfig =
        (case bestAccepted exampleScore (Snippet \<circ> snd) (name ?poas) (enumerate 0 exampleSnippets)
                (fuzzySearchMinScore exampleConfig) of
           None \<Rightarrow> Inr (resolveNumericValue exampleConfig ?poas, exampleSnippets)
         | Some (k, Property p) \<Rightarrow>
             (case resolveAsProperty exampleScore exampleGetKeywords exampleNumToString ?poas p
                     exampleConfig of
                Inl e \<Rightarrow> Inl e
              | Inr resolved \<Rightarrow> resolveNumericValue_of exampleConfig exampleSnippets k resolved)
         | Some (k, Raw raw) \<Rightarrow>
             Inr (resolveNumericValue exampleConfig (resolveAsSnippet ?poas raw), exampleSnippets))"
      by blast
    then show ?thesis
      by (simp only: baE option.case prod.case CSSSnippet.case oneE sum.case)
         (simp add: resolveNumericValue_of_def resolveNumericValue_def writeAlternative_def
           exampleSnippets_def examplePosition_def)
  qed
  have baK: "bestAccepted exampleScore KeywordRef (Some ''abs'') (exampleGetKeywords examplePosition)
               (fuzzySearchMinScore strictConfig) = None"
    and baG: "bestAccepted exampleScore Str (Some ''abs'') (keywords' strictConfig)
               (fuzzySearchMinScore strictConfig) = None"
    and baKE: "bestAccepted exampleScore KeywordRef (Some ''abs'') (exampleGetKeywords examplePosition)
               (fuzzySearchMinScore exampleConfig) = Some (exampleRef ''absolute'' 1)"
    by (simp_all add: bestAccepted_def findBestMatch_def itemScore_def exampleScore_def
        exampleGetKeywords_examplePosition exampleRef_def minScoreOrDefault_def strictConfig_def exampleConfig_def)
  have 5: "resolveAsPropertyValue exampleScore exampleGetKeywords ?abs strictConfig
             (Some examplePosition) = OwnValue ?abs"
    using S7 by (simp add: baK baG)
  have 6: "resolveAsPropertyValue exampleScore exampleGetKeywords ?abs exampleConfig
             (Some examplePosition) =
     SnippetValue \<lparr>name = None, value' = [CSSValue [Literal ''absolute'']],
                   important = False\<rparr> 1"
    using E7 by (simp add: baKE) (simp add: exampleRef_def examplePosition_def)
  from 1 2 3 4 5 6 show ?thesis by simp
qed

section \<open>Properties of the tree walker\<close>

subsection \<open>What the walker restores\<close>
















subsection \<open>The walk returns\<close>










subsection \<open>The example visitors\<close>






subsection \<open>The walk of a visitor on the other fields\<close>

lemma userFields_walker [simp]:
  "userFields (s\<lparr>current := c\<rparr>) = userFields s"
  "userFields (s\<lparr>parent := p\<rparr>) = userFields s"
  "userFields (s\<lparr>ancestors := a\<rparr>) = userFields s"
  by (simp_all add: userFields_def)

lemma userFields_withUserFields [simp]: "userFields (withUserFields u s) = u"
  by (cases u) (simp add: userFields_def withUserFields_def setUserFields_def)








subsection \<open>The ancestor invariant\<close>




subsection \<open>The frame of the walker\<close>





end
